theory Spec2Isabelle
  imports Complex_Main "HOL-Library.Multiset"
begin

section \<open>The entity store (app/models.py)\<close>

text \<open>
  Each SQLAlchemy model class is a record with the columns of the class; a field is
  prefixed with the initial of its table because record fields share one name space.
  Identifiers are the strings \<open>str(uuid.uuid4())\<close> produces, timestamps are clock
  readings (\<open>datetime.utcnow\<close>), both supplied by the environment: every handler that
  inserts a row takes the generated identifier and the current time as arguments.
  A table is the list of its rows in insertion order.
\<close>

type_synonym datetime = nat

record college =
  c_id :: string
  c_name :: string
  c_created_at :: datetime

record student =
  s_id :: string
  s_college_id :: string
  s_name :: string
  s_email :: string
  s_created_at :: datetime

record event =
  e_id :: string
  e_college_id :: string
  e_title :: string
  e_description :: string
  e_event_type :: string
  e_start_time :: datetime
  e_end_time :: datetime
  e_capacity :: int
  e_status :: string
  e_created_at :: datetime

record registration =
  r_id :: string
  r_student_id :: string
  r_event_id :: string
  r_registered_at :: datetime

record attendance =
  a_id :: string
  a_student_id :: string
  a_event_id :: string
  a_checked_in_at :: datetime
  a_method :: string

record feedback =
  f_id :: string
  f_student_id :: string
  f_event_id :: string
  f_rating :: int
  f_comment :: string
  f_submitted_at :: datetime

record store =
  colleges :: "college list"
  students :: "student list"
  events :: "event list"
  registrations :: "registration list"
  attendances :: "attendance list"
  feedbacks :: "feedback list"

definition empty_store :: store where
  "empty_store = \<lparr>colleges = [], students = [], events = [], registrations = [],
     attendances = [], feedbacks = []\<rparr>"

subsection \<open>Responses\<close>

text \<open>
  Every \<open>return jsonify({'error': ...}), code\<close> of the handlers is one constructor;
  \<open>status_code\<close> is the HTTP status the handler returns with it and \<open>kind_of\<close> its
  place in the error taxonomy of the specification. \<open>InternalError\<close> is the
  \<open>except Exception\<close> branch (rollback, status 500).
\<close>

datatype error =
    CollegeNameRequired
  | StudentFieldsRequired
  | CollegeNotFound
  | EmailExists
  | EventFieldsRequired
  | InvalidDatetime
  | StudentIdRequired
  | EventNotFound
  | StudentNotFound
  | AlreadyRegistered
  | FullCapacity
  | NotRegistered
  | AttendanceAlreadyMarked
  | RatingRequired
  | RatingOutOfRange
  | NotAttended
  | FeedbackAlreadySubmitted
  | InternalError

fun status_code :: "error \<Rightarrow> nat" where
  "status_code CollegeNameRequired = 400"
| "status_code StudentFieldsRequired = 400"
| "status_code CollegeNotFound = 404"
| "status_code EmailExists = 409"
| "status_code EventFieldsRequired = 400"
| "status_code InvalidDatetime = 400"
| "status_code StudentIdRequired = 400"
| "status_code EventNotFound = 404"
| "status_code StudentNotFound = 404"
| "status_code AlreadyRegistered = 409"
| "status_code FullCapacity = 400"
| "status_code NotRegistered = 403"
| "status_code AttendanceAlreadyMarked = 409"
| "status_code RatingRequired = 400"
| "status_code RatingOutOfRange = 400"
| "status_code NotAttended = 403"
| "status_code FeedbackAlreadySubmitted = 409"
| "status_code InternalError = 500"

datatype error_kind =
  ValidationError | NotFoundError | ConflictError | ForbiddenError | CapacityError
  | InternalFailure

fun kind_of :: "error \<Rightarrow> error_kind" where
  "kind_of CollegeNameRequired = ValidationError"
| "kind_of StudentFieldsRequired = ValidationError"
| "kind_of CollegeNotFound = NotFoundError"
| "kind_of EmailExists = ConflictError"
| "kind_of EventFieldsRequired = ValidationError"
| "kind_of InvalidDatetime = ValidationError"
| "kind_of StudentIdRequired = ValidationError"
| "kind_of EventNotFound = NotFoundError"
| "kind_of StudentNotFound = NotFoundError"
| "kind_of AlreadyRegistered = ConflictError"
| "kind_of FullCapacity = CapacityError"
| "kind_of NotRegistered = ForbiddenError"
| "kind_of AttendanceAlreadyMarked = ConflictError"
| "kind_of RatingRequired = ValidationError"
| "kind_of RatingOutOfRange = ValidationError"
| "kind_of NotAttended = ForbiddenError"
| "kind_of FeedbackAlreadySubmitted = ConflictError"
| "kind_of InternalError = InternalFailure"

subsection \<open>Queries\<close>

text \<open>
  \<open>Model.query.get(id)\<close> is the row with that primary key, \<open>filter_by(...).first()\<close>
  the first matching row, \<open>filter_by(...).count()\<close> the number of matching rows.
\<close>

definition get_college :: "store \<Rightarrow> string \<Rightarrow> college option" where
  "get_college st cid = find (\<lambda>c. c_id c = cid) (colleges st)"

definition get_student :: "store \<Rightarrow> string \<Rightarrow> student option" where
  "get_student st sid = find (\<lambda>s. s_id s = sid) (students st)"

definition get_event :: "store \<Rightarrow> string \<Rightarrow> event option" where
  "get_event st eid = find (\<lambda>e. e_id e = eid) (events st)"

definition student_by_email :: "store \<Rightarrow> string \<Rightarrow> student option" where
  "student_by_email st em = find (\<lambda>s. s_email s = em) (students st)"

definition registration_of :: "store \<Rightarrow> string \<Rightarrow> string \<Rightarrow> registration option" where
  "registration_of st sid eid =
     find (\<lambda>r. r_student_id r = sid \<and> r_event_id r = eid) (registrations st)"

definition attendance_of :: "store \<Rightarrow> string \<Rightarrow> string \<Rightarrow> attendance option" where
  "attendance_of st sid eid =
     find (\<lambda>a. a_student_id a = sid \<and> a_event_id a = eid) (attendances st)"

definition feedback_of :: "store \<Rightarrow> string \<Rightarrow> string \<Rightarrow> feedback option" where
  "feedback_of st sid eid =
     find (\<lambda>f. f_student_id f = sid \<and> f_event_id f = eid) (feedbacks st)"

definition count_registrations :: "store \<Rightarrow> string \<Rightarrow> nat" where
  "count_registrations st eid = length (filter (\<lambda>r. r_event_id r = eid) (registrations st))"

definition count_attendances :: "store \<Rightarrow> string \<Rightarrow> nat" where
  "count_attendances st eid = length (filter (\<lambda>a. a_event_id a = eid) (attendances st))"

definition count_feedbacks :: "store \<Rightarrow> string \<Rightarrow> nat" where
  "count_feedbacks st eid = length (filter (\<lambda>f. f_event_id f = eid) (feedbacks st))"

subsection \<open>Inserts\<close>

text \<open>
  \<open>db.session.add(row); db.session.commit()\<close>. The commit raises IntegrityError, which
  the handler's \<open>except Exception\<close> turns into a rollback and status 500, when the row
  breaks a constraint of its table: the primary key (\<open>primary_key=True\<close>), or the
  \<open>unique=True\<close> and \<open>UniqueConstraint\<close> declarations. Foreign keys are declared but
  the SQLite connection the application opens does not enforce them. An integer
  column of SQLite holds a signed 64-bit value: binding an integer outside that range
  raises OverflowError, which the handler answers with status 500 like any other
  exception.
\<close>

definition sqlite_integer :: "int \<Rightarrow> bool" where
  "sqlite_integer n \<longleftrightarrow> - (2 ^ 63) \<le> n \<and> n < 2 ^ 63"

definition add_college :: "store \<Rightarrow> college \<Rightarrow> error + college \<times> store" where
  "add_college st c =
     (if c_id c \<in> set (map c_id (colleges st)) then Inl InternalError
      else Inr (c, st\<lparr>colleges := colleges st @ [c]\<rparr>))"

definition add_student :: "store \<Rightarrow> student \<Rightarrow> error + student \<times> store" where
  "add_student st s =
     (if s_id s \<in> set (map s_id (students st)) then Inl InternalError
      else if s_email s \<in> set (map s_email (students st)) then Inl InternalError
      else Inr (s, st\<lparr>students := students st @ [s]\<rparr>))"

definition add_event :: "store \<Rightarrow> event \<Rightarrow> error + event \<times> store" where
  "add_event st e =
     (if \<not> sqlite_integer (e_capacity e) then Inl InternalError
      else if e_id e \<in> set (map e_id (events st)) then Inl InternalError
      else Inr (e, st\<lparr>events := events st @ [e]\<rparr>))"

definition add_registration :: "store \<Rightarrow> registration \<Rightarrow> error + registration \<times> store" where
  "add_registration st r =
     (if r_id r \<in> set (map r_id (registrations st)) then Inl InternalError
      else if registration_of st (r_student_id r) (r_event_id r) \<noteq> None then Inl InternalError
      else Inr (r, st\<lparr>registrations := registrations st @ [r]\<rparr>))"

definition add_attendance :: "store \<Rightarrow> attendance \<Rightarrow> error + attendance \<times> store" where
  "add_attendance st a =
     (if a_id a \<in> set (map a_id (attendances st)) then Inl InternalError
      else if attendance_of st (a_student_id a) (a_event_id a) \<noteq> None then Inl InternalError
      else Inr (a, st\<lparr>attendances := attendances st @ [a]\<rparr>))"

definition add_feedback :: "store \<Rightarrow> feedback \<Rightarrow> error + feedback \<times> store" where
  "add_feedback st f =
     (if f_id f \<in> set (map f_id (feedbacks st)) then Inl InternalError
      else if feedback_of st (f_student_id f) (f_event_id f) \<noteq> None then Inl InternalError
      else Inr (f, st\<lparr>feedbacks := feedbacks st @ [f]\<rparr>))"

section \<open>Entity creation (app/api/colleges.py, students.py, events.py)\<close>

text \<open>
  A request body is the JSON object \<open>request.get_json()\<close> returns, a record whose
  fields are \<open>None\<close> when the key is absent and typed as the data model types them
  (identifiers, names and times are strings, capacity and rating are integers).
  The handler receives \<open>None\<close> in place of the body when the request carries no JSON
  object. \<open>truthy\<close> is Python's truth value of an optional string: \<open>None\<close> and the
  empty string are false.
\<close>

definition truthy :: "string option \<Rightarrow> bool" where
  "truthy v = (case v of None \<Rightarrow> False | Some s \<Rightarrow> s \<noteq> [])"

record college_body =
  cb_name :: "string option"

record student_body =
  sb_college_id :: "string option"
  sb_name :: "string option"
  sb_email :: "string option"

record event_body =
  eb_college_id :: "string option"
  eb_title :: "string option"
  eb_description :: "string option"
  eb_event_type :: "string option"
  eb_start_time :: "string option"
  eb_end_time :: "string option"
  eb_capacity :: "int option"

definition create_college ::
  "store \<Rightarrow> string \<Rightarrow> datetime \<Rightarrow> college_body option \<Rightarrow> error + college \<times> store" where
  "create_college st new_id now data =
     (case data of
        None \<Rightarrow> Inl CollegeNameRequired
      | Some d \<Rightarrow>
          if \<not> truthy (cb_name d) then Inl CollegeNameRequired
          else add_college st \<lparr>c_id = new_id, c_name = the (cb_name d), c_created_at = now\<rparr>)"

definition create_student ::
  "store \<Rightarrow> string \<Rightarrow> datetime \<Rightarrow> student_body option \<Rightarrow> error + student \<times> store" where
  "create_student st new_id now data =
     (case data of
        None \<Rightarrow> Inl StudentFieldsRequired
      | Some d \<Rightarrow>
          (case (sb_college_id d, sb_name d, sb_email d) of
             (Some college_id, Some name, Some email) \<Rightarrow>
               (case get_college st college_id of
                  None \<Rightarrow> Inl CollegeNotFound
                | Some college \<Rightarrow>
                    (case student_by_email st email of
                       Some existing_student \<Rightarrow> Inl EmailExists
                     | None \<Rightarrow>
                         add_student st \<lparr>s_id = new_id, s_college_id = college_id,
                           s_name = name, s_email = email, s_created_at = now\<rparr>))
           | _ \<Rightarrow> Inl StudentFieldsRequired))"

text \<open>
  \<open>create_event\<close> checks that the six required keys are present and that both times
  parse; \<open>fromisoformat\<close> stands for \<open>datetime.fromisoformat(s.replace('Z', '+00:00'))\<close>,
  \<open>None\<close> being its ValueError. The capacity is stored as it was sent: the handler
  has no check on its value. The status column takes its default \<open>'active'\<close>.
\<close>

definition create_event ::
  "(string \<Rightarrow> datetime option) \<Rightarrow> store \<Rightarrow> string \<Rightarrow> datetime \<Rightarrow> event_body option
     \<Rightarrow> error + event \<times> store" where
  "create_event fromisoformat st new_id now data =
     (case data of
        None \<Rightarrow> Inl EventFieldsRequired
      | Some d \<Rightarrow>
          (case (eb_college_id d, eb_title d, eb_event_type d) of
             (Some college_id, Some title, Some event_type) \<Rightarrow>
               (case (eb_start_time d, eb_end_time d, eb_capacity d) of
                  (Some start_s, Some end_s, Some capacity) \<Rightarrow>
                    (case fromisoformat start_s of
                       None \<Rightarrow> Inl InvalidDatetime
                     | Some start_time \<Rightarrow>
                         (case fromisoformat end_s of
                            None \<Rightarrow> Inl InvalidDatetime
                          | Some end_time \<Rightarrow>
                              add_event st \<lparr>e_id = new_id, e_college_id = college_id,
                                e_title = title,
                                e_description = (case eb_description d of None \<Rightarrow> [] | Some x \<Rightarrow> x),
                                e_event_type = event_type, e_start_time = start_time,
                                e_end_time = end_time, e_capacity = capacity,
                                e_status = ''active'', e_created_at = now\<rparr>))
                | _ \<Rightarrow> Inl EventFieldsRequired)
           | _ \<Rightarrow> Inl EventFieldsRequired))"

section \<open>The workflow engine (app/api/events.py)\<close>

record register_body =
  rb_student_id :: "string option"

record attendance_body =
  ab_student_id :: "string option"
  ab_method :: "string option"

record feedback_body =
  fb_student_id :: "string option"
  fb_rating :: "int option"
  fb_comment :: "string option"

text \<open>
  \<open>register_for_event\<close>: \<open>data.get\<close> on a missing body raises (status 500); then the
  checks of the handler in its order: student_id present, event exists, student
  exists, no registration of the pair yet, registrations of the event below its
  capacity.
\<close>

definition register_for_event ::
  "store \<Rightarrow> string \<Rightarrow> datetime \<Rightarrow> string \<Rightarrow> register_body option
     \<Rightarrow> error + registration \<times> store" where
  "register_for_event st new_id now event_id data =
     (case data of
        None \<Rightarrow> Inl InternalError
      | Some d \<Rightarrow>
          if \<not> truthy (rb_student_id d) then Inl StudentIdRequired
          else
            let student_id = the (rb_student_id d) in
            (case get_event st event_id of
               None \<Rightarrow> Inl EventNotFound
             | Some event \<Rightarrow>
                 (case get_student st student_id of
                    None \<Rightarrow> Inl StudentNotFound
                  | Some student \<Rightarrow>
                      (case registration_of st student_id event_id of
                         Some existing_registration \<Rightarrow> Inl AlreadyRegistered
                       | None \<Rightarrow>
                           if int (count_registrations st event_id) \<ge> e_capacity event
                           then Inl FullCapacity
                           else add_registration st \<lparr>r_id = new_id, r_student_id = student_id,
                                  r_event_id = event_id, r_registered_at = now\<rparr>))))"

text \<open>
  \<open>mark_attendance\<close> looks up neither the event nor the student: it requires the
  registration of the pair, then the absence of an attendance of the pair.
\<close>

definition mark_attendance ::
  "store \<Rightarrow> string \<Rightarrow> datetime \<Rightarrow> string \<Rightarrow> attendance_body option
     \<Rightarrow> error + attendance \<times> store" where
  "mark_attendance st new_id now event_id data =
     (case data of
        None \<Rightarrow> Inl InternalError
      | Some d \<Rightarrow>
          if \<not> truthy (ab_student_id d) then Inl StudentIdRequired
          else
            let student_id = the (ab_student_id d);
                method = (case ab_method d of None \<Rightarrow> ''manual'' | Some m \<Rightarrow> m) in
            (case registration_of st student_id event_id of
               None \<Rightarrow> Inl NotRegistered
             | Some registration \<Rightarrow>
                 (case attendance_of st student_id event_id of
                    Some existing_attendance \<Rightarrow> Inl AttendanceAlreadyMarked
                  | None \<Rightarrow>
                      add_attendance st \<lparr>a_id = new_id, a_student_id = student_id,
                        a_event_id = event_id, a_checked_in_at = now, a_method = method\<rparr>)))"

text \<open>
  \<open>submit_feedback\<close>: \<open>not rating\<close> holds for an absent rating and for 0; the range
  check follows, before any query.
\<close>

definition submit_feedback ::
  "store \<Rightarrow> string \<Rightarrow> datetime \<Rightarrow> string \<Rightarrow> feedback_body option
     \<Rightarrow> error + feedback \<times> store" where
  "submit_feedback st new_id now event_id data =
     (case data of
        None \<Rightarrow> Inl InternalError
      | Some d \<Rightarrow>
          if \<not> truthy (fb_student_id d) \<or> fb_rating d = None \<or> fb_rating d = Some 0
          then Inl RatingRequired
          else
            let student_id = the (fb_student_id d);
                rating = the (fb_rating d);
                comment = (case fb_comment d of None \<Rightarrow> [] | Some c \<Rightarrow> c) in
            if \<not> (1 \<le> rating \<and> rating \<le> 5) then Inl RatingOutOfRange
            else
              (case attendance_of st student_id event_id of
                 None \<Rightarrow> Inl NotAttended
               | Some attendance \<Rightarrow>
                   (case feedback_of st student_id event_id of
                      Some existing_feedback \<Rightarrow> Inl FeedbackAlreadySubmitted
                    | None \<Rightarrow>
                        add_feedback st \<lparr>f_id = new_id, f_student_id = student_id,
                          f_event_id = event_id, f_rating = rating, f_comment = comment,
                          f_submitted_at = now\<rparr>)))"

section \<open>The reporting engine (app/api/reports.py)\<close>

subsection \<open>Numbers\<close>

text \<open>
  Percentages and averages are rational numbers here. The handlers compute them in
  double precision and pass them to \<open>round(x, 2)\<close>; that computation is the
  parameter \<open>round2\<close> of the reports, applied to the exact quotient. What the
  theorems assume of it is \<open>rounds_to_two_decimals\<close>: the result has at most two
  decimals and lies within 0.005 of the exact value; which of the two neighbours a
  value half-way between them goes to is left open. \<open>nearest_hundredth\<close>, rounding
  the exact value with ties to even, is one such function; it instantiates the
  parameter in the examples. \<open>sql_avg\<close> is the aggregate \<open>func.avg\<close>, NULL over no
  rows.
\<close>

definition two_decimal :: "rat \<Rightarrow> bool" where
  "two_decimal x \<longleftrightarrow> of_int \<lfloor>x * 100\<rfloor> = x * 100"

definition rounds_to_two_decimals :: "(rat \<Rightarrow> rat) \<Rightarrow> bool" where
  "rounds_to_two_decimals round2 \<longleftrightarrow>
     (\<forall>q. two_decimal (round2 q) \<and> \<bar>round2 q - q\<bar> \<le> 1 / 200)"

definition round_half_even :: "rat \<Rightarrow> int" where
  "round_half_even q =
     (let f = \<lfloor>q\<rfloor>; d = q - of_int f in
      if d < 1 / 2 then f else if 1 / 2 < d then f + 1 else if even f then f else f + 1)"

definition nearest_hundredth :: "rat \<Rightarrow> rat" where
  "nearest_hundredth q = of_int (round_half_even (q * 100)) / 100"

definition sql_avg :: "int list \<Rightarrow> rat option" where
  "sql_avg xs = (if xs = [] then None else Some (of_int (sum_list xs) / of_nat (length xs)))"

subsection \<open>Joins, groups and order\<close>

text \<open>
  \<open>query.join(T, on)\<close> is the inner join: one row per pair that satisfies the
  condition, so a left row with no partner yields no row. \<open>group_by\<close> with
  \<open>func.count\<close> gives one row per distinct key with the number of joined rows that
  carry it. \<open>order_by(desc(count))\<close> sorts by decreasing count; the order among
  rows of equal count is the database's choice, and the model keeps them in the
  order of their groups. \<open>limit(n)\<close> keeps the first n rows, and all of them when n
  is negative, as SQLite reads a negative LIMIT.
\<close>

definition inner_join :: "'a list \<Rightarrow> 'b list \<Rightarrow> ('a \<Rightarrow> 'b \<Rightarrow> bool) \<Rightarrow> ('a \<times> 'b) list" where
  "inner_join xs ys on = concat (map (\<lambda>x. map (Pair x) (filter (on x) ys)) xs)"

definition group_count :: "'k list \<Rightarrow> ('k \<times> nat) list" where
  "group_count ks = map (\<lambda>k. (k, length (filter (\<lambda>x. x = k) ks))) (remdups ks)"

definition order_by_desc :: "('k \<times> nat) list \<Rightarrow> ('k \<times> nat) list" where
  "order_by_desc rows = sort_key (\<lambda>row. - int (snd row)) rows"

definition limit_rows :: "int \<Rightarrow> 'a list \<Rightarrow> 'a list" where
  "limit_rows n rows = (if n < 0 then rows else take (nat n) rows)"

subsection \<open>event_popularity\<close>

record popularity_row =
  pop_event_id :: string
  pop_title :: string
  pop_event_type :: string
  pop_capacity :: int
  pop_registration_count :: nat

definition event_popularity :: "store \<Rightarrow> string option \<Rightarrow> popularity_row list" where
  "event_popularity st college_id =
     (let query = inner_join (events st) (registrations st) (\<lambda>e r. e_id e = r_event_id r);
          query = (if truthy college_id
                   then filter (\<lambda>(e, r). e_college_id e = the college_id) query
                   else query);
          results = order_by_desc (group_count
                      (map (\<lambda>(e, r). (e_id e, e_title e, e_event_type e, e_capacity e)) query))
      in map (\<lambda>((i, title, event_type, capacity), n).
                \<lparr>pop_event_id = i, pop_title = title, pop_event_type = event_type,
                 pop_capacity = capacity, pop_registration_count = n\<rparr>) results)"

subsection \<open>event_attendance\<close>

record attendance_report =
  ar_event :: event
  ar_registration_count :: nat
  ar_attendance_count :: nat
  ar_attendance_percentage :: rat
  ar_average_rating :: "rat option"
  ar_feedback_count :: nat

definition event_attendance ::
  "(rat \<Rightarrow> rat) \<Rightarrow> store \<Rightarrow> string \<Rightarrow> error + attendance_report" where
  "event_attendance round2 st event_id =
     (case get_event st event_id of
        None \<Rightarrow> Inl EventNotFound
      | Some event \<Rightarrow>
          let registration_count = count_registrations st event_id;
              attendance_count = count_attendances st event_id;
              attendance_percentage =
                (if registration_count > 0
                 then of_nat attendance_count / of_nat registration_count * 100 else 0);
              avg_rating_result =
                sql_avg (map f_rating (filter (\<lambda>f. f_event_id f = event_id) (feedbacks st)));
              avg_rating =
                (case avg_rating_result of
                   None \<Rightarrow> None
                 | Some v \<Rightarrow> if v = 0 then None else Some (round2 v));
              feedback_count = count_feedbacks st event_id
          in Inr \<lparr>ar_event = event,
                  ar_registration_count = registration_count,
                  ar_attendance_count = attendance_count,
                  ar_attendance_percentage = round2 attendance_percentage,
                  ar_average_rating = avg_rating,
                  ar_feedback_count = feedback_count\<rparr>)"

subsection \<open>student_participation\<close>

text \<open>
  \<open>reg.event\<close>, \<open>att.event\<close> and \<open>feedback.event\<close> follow the relationship to the
  event row; on a row whose event is missing the attribute is \<open>None\<close> and the access
  to \<open>to_dict\<close> or \<open>title\<close> raises, which the handler answers with status 500.

  The three queries \<open>filter_by(student_id=...).all()\<close> have no ORDER BY: the order
  of their rows is the database's choice (SQLite serves them from the index of the
  unique constraint, not in insertion order). The parameter \<open>fetch_order\<close> stands
  for that choice, one function per table from the selected rows to the list
  returned; \<open>permutes\<close> says that each returns the same rows in some order.
  \<open>table_order\<close> returns them as stored.
\<close>

record fetch_order =
  all_registrations :: "registration list \<Rightarrow> registration list"
  all_attendances :: "attendance list \<Rightarrow> attendance list"
  all_feedbacks :: "feedback list \<Rightarrow> feedback list"

definition permutes :: "fetch_order \<Rightarrow> bool" where
  "permutes fo \<longleftrightarrow>
     (\<forall>xs. mset (all_registrations fo xs) = mset xs) \<and>
     (\<forall>xs. mset (all_attendances fo xs) = mset xs) \<and>
     (\<forall>xs. mset (all_feedbacks fo xs) = mset xs)"

definition table_order :: fetch_order where
  "table_order = \<lparr>all_registrations = (\<lambda>xs. xs), all_attendances = (\<lambda>xs. xs),
     all_feedbacks = (\<lambda>xs. xs)\<rparr>"

record feedback_entry =
  fe_event_title :: string
  fe_rating :: int
  fe_comment :: string
  fe_submitted_at :: datetime

record participation_report =
  pr_student :: student
  pr_events_registered :: nat
  pr_events_attended :: nat
  pr_attendance_rate :: rat
  pr_feedbacks_given :: nat
  pr_registered_events :: "event list"
  pr_attended_events :: "event list"
  pr_feedbacks :: "feedback_entry list"

definition feedback_entry_of :: "store \<Rightarrow> feedback \<Rightarrow> feedback_entry option" where
  "feedback_entry_of st f =
     (case get_event st (f_event_id f) of
        None \<Rightarrow> None
      | Some event \<Rightarrow>
          Some \<lparr>fe_event_title = e_title event, fe_rating = f_rating f,
                fe_comment = f_comment f, fe_submitted_at = f_submitted_at f\<rparr>)"

definition student_participation ::
  "fetch_order \<Rightarrow> (rat \<Rightarrow> rat) \<Rightarrow> store \<Rightarrow> string \<Rightarrow> error + participation_report" where
  "student_participation fo round2 st student_id =
     (case get_student st student_id of
        None \<Rightarrow> Inl StudentNotFound
      | Some student \<Rightarrow>
          (case those (map (\<lambda>reg. get_event st (r_event_id reg))
                         (all_registrations fo
                            (filter (\<lambda>r. r_student_id r = student_id) (registrations st)))) of
             None \<Rightarrow> Inl InternalError
           | Some registered_events \<Rightarrow>
               (case those (map (\<lambda>att. get_event st (a_event_id att))
                              (all_attendances fo
                                 (filter (\<lambda>a. a_student_id a = student_id) (attendances st)))) of
                  None \<Rightarrow> Inl InternalError
                | Some attended_events \<Rightarrow>
                    (case those (map (feedback_entry_of st)
                                   (all_feedbacks fo
                                      (filter (\<lambda>f. f_student_id f = student_id) (feedbacks st)))) of
                       None \<Rightarrow> Inl InternalError
                     | Some feedback_data \<Rightarrow>
                         Inr \<lparr>pr_student = student,
                               pr_events_registered = length registered_events,
                               pr_events_attended = length attended_events,
                               pr_attendance_rate =
                                 (if registered_events \<noteq> []
                                  then round2 (of_nat (length attended_events)
                                         / of_nat (length registered_events) * 100)
                                  else 0),
                               pr_feedbacks_given = length feedback_data,
                               pr_registered_events = registered_events,
                               pr_attended_events = attended_events,
                               pr_feedbacks = feedback_data\<rparr>))))"

subsection \<open>top_active_students\<close>

text \<open>
  The \<open>limit\<close> query argument is absent (the default 3 applies), an integer, or a
  text \<open>int()\<close> rejects (ValueError, status 500). An integer outside the signed
  64-bit range cannot be bound as the LIMIT of the query (OverflowError, status
  500).
\<close>

datatype limit_arg = LimitAbsent | LimitValue int | LimitInvalid

record active_row =
  act_student_id :: string
  act_name :: string
  act_email :: string
  act_attendance_count :: nat

definition top_active_students ::
  "store \<Rightarrow> string option \<Rightarrow> limit_arg \<Rightarrow> error + active_row list" where
  "top_active_students st college_id limit_a =
     (case limit_a of
        LimitInvalid \<Rightarrow> Inl InternalError
      | _ \<Rightarrow>
          let limit = (case limit_a of LimitValue n \<Rightarrow> n | _ \<Rightarrow> 3) in
          if \<not> sqlite_integer limit then Inl InternalError
          else
          let query = inner_join (students st) (attendances st) (\<lambda>s a. s_id s = a_student_id a);
              query = (if truthy college_id
                       then filter (\<lambda>(s, a). s_college_id s = the college_id) query
                       else query);
              results = limit_rows limit (order_by_desc (group_count
                          (map (\<lambda>(s, a). (s_id s, s_name s, s_email s)) query)))
          in Inr (map (\<lambda>((i, name, email), n).
                         \<lparr>act_student_id = i, act_name = name, act_email = email,
                          act_attendance_count = n\<rparr>) results))"

section \<open>Reachable stores\<close>

text \<open>
  The store changes only through the six creating handlers. A request names the
  handler with the identifier and the time the environment supplies and the body the
  client sends; \<open>exec\<close> is the store after the request, unchanged when the handler
  answers with an error. The reachable stores are those a sequence of requests
  produces from the empty store.
\<close>

datatype request =
    CreateCollege string datetime "college_body option"
  | CreateStudent string datetime "student_body option"
  | CreateEvent string datetime "event_body option"
  | Register string datetime string "register_body option"
  | MarkAttendance string datetime string "attendance_body option"
  | SubmitFeedback string datetime string "feedback_body option"

definition store_after :: "store \<Rightarrow> error + 'a \<times> store \<Rightarrow> store" where
  "store_after st res = (case res of Inl err \<Rightarrow> st | Inr (row, st') \<Rightarrow> st')"

fun exec :: "(string \<Rightarrow> datetime option) \<Rightarrow> store \<Rightarrow> request \<Rightarrow> store" where
  "exec p st (CreateCollege i t d) = store_after st (create_college st i t d)"
| "exec p st (CreateStudent i t d) = store_after st (create_student st i t d)"
| "exec p st (CreateEvent i t d) = store_after st (create_event p st i t d)"
| "exec p st (Register i t e d) = store_after st (register_for_event st i t e d)"
| "exec p st (MarkAttendance i t e d) = store_after st (mark_attendance st i t e d)"
| "exec p st (SubmitFeedback i t e d) = store_after st (submit_feedback st i t e d)"

inductive reachable :: "store \<Rightarrow> bool" where
  reachable_empty: "reachable empty_store"
| reachable_exec: "reachable st \<Longrightarrow> reachable (exec p st req)"

subsection \<open>Invariants\<close>

definition unique_ids :: "store \<Rightarrow> bool" where
  "unique_ids st \<longleftrightarrow> distinct (map e_id (events st)) \<and> distinct (map s_id (students st))"

definition referential :: "store \<Rightarrow> bool" where
  "referential st \<longleftrightarrow>
     (\<forall>r \<in> set (registrations st).
        r_student_id r \<noteq> [] \<and> get_student st (r_student_id r) \<noteq> None
        \<and> get_event st (r_event_id r) \<noteq> None) \<and>
     (\<forall>a \<in> set (attendances st).
        a_student_id a \<noteq> [] \<and> registration_of st (a_student_id a) (a_event_id a) \<noteq> None) \<and>
     (\<forall>f \<in> set (feedbacks st).
        f_student_id f \<noteq> [] \<and> attendance_of st (f_student_id f) (f_event_id f) \<noteq> None
        \<and> 1 \<le> f_rating f \<and> f_rating f \<le> 5)"

definition one_per_pair :: "store \<Rightarrow> bool" where
  "one_per_pair st \<longleftrightarrow>
     distinct (map (\<lambda>r. (r_student_id r, r_event_id r)) (registrations st)) \<and>
     distinct (map (\<lambda>a. (a_student_id a, a_event_id a)) (attendances st)) \<and>
     distinct (map (\<lambda>f. (f_student_id f, f_event_id f)) (feedbacks st))"

definition within_capacity :: "store \<Rightarrow> bool" where
  "within_capacity st \<longleftrightarrow>
     (\<forall>e \<in> set (events st). int (count_registrations st (e_id e)) \<le> max 0 (e_capacity e))"

definition consistent :: "store \<Rightarrow> bool" where
  "consistent st \<longleftrightarrow> unique_ids st \<and> referential st \<and> one_per_pair st \<and> within_capacity st"

section \<open>Example stores\<close>

text \<open>
  Concrete request sequences, used to instantiate the theorems below. The first is
  the example scenario of the specification: a college, an event of capacity 2,
  students A, B and C registering in turn (C is refused), A attending and giving
  feedback twice (the second is refused). The events start and end at the two
  ISO-8601 times \<open>parse_iso\<close> reads; it stands for \<open>fromisoformat\<close> on these two
  strings and rejects every other text.
\<close>

definition parse_iso :: "string \<Rightarrow> datetime option" where
  "parse_iso s =
     (if s = ''2025-03-01T10:00:00'' then Some 10
      else if s = ''2025-03-01T12:00:00'' then Some 12
      else None)"

definition college_request :: request where
  "college_request = CreateCollege ''c1'' 0 (Some \<lparr>cb_name = Some ''U1''\<rparr>)"

definition event_request :: "string \<Rightarrow> int \<Rightarrow> request" where
  "event_request i capacity =
     CreateEvent i 0 (Some \<lparr>eb_college_id = Some ''c1'', eb_title = Some ''Talk'',
       eb_description = None, eb_event_type = Some ''Seminar'', eb_start_time = Some ''2025-03-01T10:00:00'',
       eb_end_time = Some ''2025-03-01T12:00:00'', eb_capacity = Some capacity\<rparr>)"

definition student_request :: "string \<Rightarrow> string \<Rightarrow> request" where
  "student_request i email =
     CreateStudent i 0 (Some \<lparr>sb_college_id = Some ''c1'', sb_name = Some ''N'',
       sb_email = Some email\<rparr>)"

definition register_request :: "string \<Rightarrow> string \<Rightarrow> string \<Rightarrow> request" where
  "register_request i e s = Register i 0 e (Some \<lparr>rb_student_id = Some s\<rparr>)"

definition attendance_request :: "string \<Rightarrow> string \<Rightarrow> string \<Rightarrow> request" where
  "attendance_request i e s =
     MarkAttendance i 0 e (Some \<lparr>ab_student_id = Some s, ab_method = None\<rparr>)"

definition feedback_request :: "string \<Rightarrow> string \<Rightarrow> string \<Rightarrow> int \<Rightarrow> request" where
  "feedback_request i e s rating =
     SubmitFeedback i 0 e (Some \<lparr>fb_student_id = Some s, fb_rating = Some rating,
       fb_comment = None\<rparr>)"

definition scenario_store :: store where
  "scenario_store = foldl (exec parse_iso) empty_store
     [college_request, event_request ''e1'' 2,
      student_request ''sA'' ''a@u1'', student_request ''sB'' ''b@u1'',
      student_request ''sC'' ''c@u1'',
      register_request ''r1'' ''e1'' ''sA'', register_request ''r2'' ''e1'' ''sB'',
      register_request ''r3'' ''e1'' ''sC'',
      attendance_request ''a1'' ''e1'' ''sA'',
      feedback_request ''f1'' ''e1'' ''sA'' 5, feedback_request ''f2'' ''e1'' ''sA'' 5]"

text \<open>
  Three events of capacity 3; student s1 registers for all three and attends the
  first, students s2 and s3 register for the first.
\<close>

definition thirds_store :: store where
  "thirds_store = foldl (exec parse_iso) empty_store
     [college_request, event_request ''e1'' 3, event_request ''e2'' 3, event_request ''e3'' 3,
      student_request ''s1'' ''1@u1'', student_request ''s2'' ''2@u1'',
      student_request ''s3'' ''3@u1'',
      register_request ''r1'' ''e1'' ''s1'', register_request ''r2'' ''e1'' ''s2'',
      register_request ''r3'' ''e1'' ''s3'', register_request ''r4'' ''e2'' ''s1'',
      register_request ''r5'' ''e3'' ''s1'',
      attendance_request ''a1'' ''e1'' ''s1'']"

text \<open>An event nobody has registered for, and an event created with capacity -1.\<close>

definition quiet_store :: store where
  "quiet_store = foldl (exec parse_iso) empty_store [college_request, event_request ''e1'' 2]"


section \<open>Lemmas\<close>

subsection \<open>First match in a table\<close>

lemma find_append:
  "find P (xs @ ys) = (case find P xs of None \<Rightarrow> find P ys | Some x \<Rightarrow> Some x)"
  by (induction xs) auto

lemma find_Some_mem: "find P xs = Some x \<Longrightarrow> x \<in> set xs \<and> P x"
  by (induction xs) (auto split: if_splits)

lemma find_None_conv: "find P xs = None \<longleftrightarrow> (\<forall>x \<in> set xs. \<not> P x)"
  by (induction xs) auto


lemma find_append_not_None: "find P xs \<noteq> None \<Longrightarrow> find P (xs @ ys) \<noteq> None"
  by (cases "find P xs") (auto simp: find_append)

lemma find_snoc_not_None: "P y \<Longrightarrow> find P (xs @ [y]) \<noteq> None"
  by (cases "find P xs") (auto simp: find_append)

lemma distinct_key_eq:
  "distinct (map k xs) \<Longrightarrow> x \<in> set xs \<Longrightarrow> y \<in> set xs \<Longrightarrow> k x = k y \<Longrightarrow> x = y"
  by (meson distinct_map inj_onD)

lemma truthy_Some: "truthy v \<longleftrightarrow> (\<exists>s. v = Some s \<and> s \<noteq> [])"
  by (cases v) (auto simp: truthy_def)

lemmas handler_defs = create_college_def create_student_def create_event_def
  register_for_event_def mark_attendance_def submit_feedback_def
  add_college_def add_student_def add_event_def add_registration_def add_attendance_def
  add_feedback_def get_college_def get_student_def get_event_def student_by_email_def
  registration_of_def attendance_of_def feedback_of_def count_registrations_def
  count_attendances_def count_feedbacks_def truthy_def store_after_def sqlite_integer_def

lemmas request_defs = college_request_def event_request_def student_request_def
  register_request_def attendance_request_def feedback_request_def parse_iso_def
  empty_store_def

subsection \<open>What a successful request did\<close>

lemma register_success:
  assumes "register_for_event st i t e d = Inr (r, st')"
  shows "\<exists>b sid ev. d = Some b \<and> rb_student_id b = Some sid \<and> sid \<noteq> [] \<and>
           get_event st e = Some ev \<and> get_student st sid \<noteq> None \<and>
           registration_of st sid e = None \<and> int (count_registrations st e) < e_capacity ev \<and>
           i \<notin> set (map r_id (registrations st)) \<and>
           r = \<lparr>r_id = i, r_student_id = sid, r_event_id = e, r_registered_at = t\<rparr> \<and>
           st' = st\<lparr>registrations := registrations st @ [r]\<rparr>"
  using assms
  by (auto simp: register_for_event_def add_registration_def truthy_Some Let_def
      split: option.splits if_splits)

lemma attendance_success:
  assumes "mark_attendance st i t e d = Inr (a, st')"
  shows "\<exists>b sid. d = Some b \<and> ab_student_id b = Some sid \<and> sid \<noteq> [] \<and>
           registration_of st sid e \<noteq> None \<and> attendance_of st sid e = None \<and>
           i \<notin> set (map a_id (attendances st)) \<and>
           a = \<lparr>a_id = i, a_student_id = sid, a_event_id = e, a_checked_in_at = t,
                 a_method = (case ab_method b of None \<Rightarrow> ''manual'' | Some m \<Rightarrow> m)\<rparr> \<and>
           st' = st\<lparr>attendances := attendances st @ [a]\<rparr>"
  using assms
  by (auto simp: mark_attendance_def add_attendance_def truthy_Some Let_def
      split: option.splits if_splits)

lemma feedback_success:
  assumes "submit_feedback st i t e d = Inr (f, st')"
  shows "\<exists>b sid rating. d = Some b \<and> fb_student_id b = Some sid \<and> sid \<noteq> [] \<and>
           fb_rating b = Some rating \<and> 1 \<le> rating \<and> rating \<le> 5 \<and>
           attendance_of st sid e \<noteq> None \<and> feedback_of st sid e = None \<and>
           i \<notin> set (map f_id (feedbacks st)) \<and>
           f = \<lparr>f_id = i, f_student_id = sid, f_event_id = e, f_rating = rating,
                 f_comment = (case fb_comment b of None \<Rightarrow> [] | Some c \<Rightarrow> c),
                 f_submitted_at = t\<rparr> \<and>
           st' = st\<lparr>feedbacks := feedbacks st @ [f]\<rparr>"
  using assms
  by (auto simp: submit_feedback_def add_feedback_def truthy_Some Let_def
      split: option.splits if_splits)

lemma college_success:
  assumes "create_college st i t d = Inr (c, st')"
  shows "c_id c = i \<and> i \<notin> set (map c_id (colleges st)) \<and> st' = st\<lparr>colleges := colleges st @ [c]\<rparr>"
  using assms
  by (auto simp: create_college_def add_college_def split: option.splits if_splits)

lemma student_success:
  assumes "create_student st i t d = Inr (s, st')"
  shows "s_id s = i \<and> i \<notin> set (map s_id (students st)) \<and> st' = st\<lparr>students := students st @ [s]\<rparr>"
  using assms
  by (auto simp: create_student_def add_student_def split: option.splits if_splits)

lemma event_success:
  assumes "create_event p st i t d = Inr (ev, st')"
  shows "\<exists>b. d = Some b \<and> eb_capacity b = Some (e_capacity ev) \<and> e_id ev = i \<and>
     i \<notin> set (map e_id (events st)) \<and> st' = st\<lparr>events := events st @ [ev]\<rparr>"
  using assms
  by (auto simp: create_event_def add_event_def split: option.splits if_splits)


subsection \<open>The invariants hold in every reachable store\<close>

lemma consistent_empty: "consistent empty_store"
  by (simp add: consistent_def unique_ids_def referential_def one_per_pair_def
      within_capacity_def empty_store_def)

lemma consistent_add_college:
  "consistent st \<Longrightarrow> consistent (st\<lparr>colleges := cs\<rparr>)"
  by (simp add: consistent_def unique_ids_def referential_def one_per_pair_def
      within_capacity_def get_student_def get_event_def registration_of_def attendance_of_def
      count_registrations_def)

lemma consistent_add_student:
  assumes "consistent st" "s_id s \<notin> set (map s_id (students st))"
  shows "consistent (st\<lparr>students := students st @ [s]\<rparr>)"
  using assms
  by (auto simp: consistent_def unique_ids_def referential_def one_per_pair_def
      within_capacity_def get_student_def get_event_def registration_of_def attendance_of_def
      count_registrations_def find_append_not_None)

lemma no_registrations_of_unknown_event:
  assumes "referential st" "eid \<notin> set (map e_id (events st))"
  shows "count_registrations st eid = 0"
proof -
  have "\<not> (\<exists>r \<in> set (registrations st). r_event_id r = eid)"
  proof
    assume "\<exists>r \<in> set (registrations st). r_event_id r = eid"
    then obtain r where r: "r \<in> set (registrations st)" "r_event_id r = eid" by blast
    with assms(1) have "get_event st eid \<noteq> None" by (auto simp: referential_def)
    then obtain e where "find (\<lambda>e. e_id e = eid) (events st) = Some e"
      by (auto simp: get_event_def)
    then have "e \<in> set (events st) \<and> e_id e = eid" by (rule find_Some_mem)
    with assms(2) show False by auto
  qed
  then show ?thesis by (auto simp: count_registrations_def filter_empty_conv)
qed

lemma consistent_add_event:
  assumes "consistent st" "e_id ev \<notin> set (map e_id (events st))"
  shows "consistent (st\<lparr>events := events st @ [ev]\<rparr>)"
proof -
  from assms have "count_registrations st (e_id ev) = 0"
    by (simp add: consistent_def no_registrations_of_unknown_event)
  with assms show ?thesis
    by (auto simp: consistent_def unique_ids_def referential_def one_per_pair_def
        within_capacity_def get_student_def get_event_def registration_of_def attendance_of_def
        count_registrations_def find_append_not_None)
qed

lemma consistent_add_registration:
  assumes "consistent st" "sid \<noteq> []" "get_event st e = Some ev" "get_student st sid \<noteq> None"
    "registration_of st sid e = None" "int (count_registrations st e) < e_capacity ev"
    "r_student_id r = sid" "r_event_id r = e"
  shows "consistent (st\<lparr>registrations := registrations st @ [r]\<rparr>)"
proof -
  let ?st' = "st\<lparr>registrations := registrations st @ [r]\<rparr>"
  have ev: "ev \<in> set (events st)" "e_id ev = e"
    using assms(3) find_Some_mem[of "\<lambda>x. e_id x = e" "events st" ev] by (auto simp: get_event_def)
  have u: "unique_ids ?st'" using assms(1) by (simp add: consistent_def unique_ids_def)
  have r: "referential ?st'"
    using assms
    by (auto simp: consistent_def referential_def get_student_def get_event_def
        registration_of_def attendance_of_def find_append_not_None)
  have o: "one_per_pair ?st'"
    using assms(1,5,7,8)
    by (auto simp: consistent_def one_per_pair_def registration_of_def find_None_conv)
  have w: "within_capacity ?st'"
    unfolding within_capacity_def
  proof
    fix x assume x: "x \<in> set (events ?st')"
    then have xin: "x \<in> set (events st)" by simp
    from assms(1) xin have old: "int (count_registrations st (e_id x)) \<le> max 0 (e_capacity x)"
      by (auto simp: consistent_def within_capacity_def)
    show "int (count_registrations ?st' (e_id x)) \<le> max 0 (e_capacity x)"
    proof (cases "e_id x = e")
      case True
      with assms(1) xin ev have "x = ev"
        by (auto simp: consistent_def unique_ids_def intro: distinct_key_eq[of e_id "events st"])
      with assms(6,8) True show ?thesis by (simp add: count_registrations_def)
    next
      case False
      with old assms(8) show ?thesis by (simp add: count_registrations_def)
    qed
  qed
  from u r o w show ?thesis by (simp add: consistent_def)
qed

lemma consistent_add_attendance:
  assumes "consistent st" "a_student_id a \<noteq> []"
    "registration_of st (a_student_id a) (a_event_id a) \<noteq> None"
    "attendance_of st (a_student_id a) (a_event_id a) = None"
  shows "consistent (st\<lparr>attendances := attendances st @ [a]\<rparr>)"
  using assms
  by (auto simp: consistent_def unique_ids_def referential_def one_per_pair_def
      within_capacity_def get_student_def get_event_def registration_of_def attendance_of_def
      count_registrations_def find_append_not_None find_snoc_not_None find_None_conv)

lemma consistent_add_feedback:
  assumes "consistent st" "f_student_id f \<noteq> []"
    "attendance_of st (f_student_id f) (f_event_id f) \<noteq> None"
    "feedback_of st (f_student_id f) (f_event_id f) = None" "1 \<le> f_rating f" "f_rating f \<le> 5"
  shows "consistent (st\<lparr>feedbacks := feedbacks st @ [f]\<rparr>)"
  using assms
  by (auto simp: consistent_def unique_ids_def referential_def one_per_pair_def
      within_capacity_def get_student_def get_event_def registration_of_def attendance_of_def
      feedback_of_def count_registrations_def find_None_conv)

lemma consistent_exec:
  assumes "consistent st"
  shows "consistent (exec p st req)"
proof (cases req)
  case (CreateCollege i t d)
  show ?thesis
  proof (cases "create_college st i t d")
    case (Inl a)
    with CreateCollege assms show ?thesis by (simp add: store_after_def)
  next
    case (Inr b)
    obtain c st' where b: "b = (c, st')" by (cases b)
    from college_success[OF Inr[unfolded b]] CreateCollege Inr b assms show ?thesis
      by (auto simp: store_after_def consistent_add_college)
  qed
next
  case (CreateStudent i t d)
  show ?thesis
  proof (cases "create_student st i t d")
    case (Inl a)
    with CreateStudent assms show ?thesis by (simp add: store_after_def)
  next
    case (Inr b)
    obtain c st' where b: "b = (c, st')" by (cases b)
    from student_success[OF Inr[unfolded b]] CreateStudent Inr b assms show ?thesis
      by (auto simp: store_after_def intro: consistent_add_student)
  qed
next
  case (CreateEvent i t d)
  show ?thesis
  proof (cases "create_event p st i t d")
    case (Inl a)
    with CreateEvent assms show ?thesis by (simp add: store_after_def)
  next
    case (Inr b)
    obtain c st' where b: "b = (c, st')" by (cases b)
    from event_success[OF Inr[unfolded b]] CreateEvent Inr b assms show ?thesis
      by (auto simp: store_after_def intro: consistent_add_event)
  qed
next
  case (Register i t e d)
  show ?thesis
  proof (cases "register_for_event st i t e d")
    case (Inl a)
    with Register assms show ?thesis by (simp add: store_after_def)
  next
    case (Inr b)
    obtain c st' where b: "b = (c, st')" by (cases b)
    from register_success[OF Inr[unfolded b]] Register Inr b assms show ?thesis
      by (auto simp: store_after_def intro!: consistent_add_registration)
  qed
next
  case (MarkAttendance i t e d)
  show ?thesis
  proof (cases "mark_attendance st i t e d")
    case (Inl a)
    with MarkAttendance assms show ?thesis by (simp add: store_after_def)
  next
    case (Inr b)
    obtain c st' where b: "b = (c, st')" by (cases b)
    from attendance_success[OF Inr[unfolded b]] MarkAttendance Inr b assms show ?thesis
      by (auto simp: store_after_def intro!: consistent_add_attendance)
  qed
next
  case (SubmitFeedback i t e d)
  show ?thesis
  proof (cases "submit_feedback st i t e d")
    case (Inl a)
    with SubmitFeedback assms show ?thesis by (simp add: store_after_def)
  next
    case (Inr b)
    obtain c st' where b: "b = (c, st')" by (cases b)
    from feedback_success[OF Inr[unfolded b]] SubmitFeedback Inr b assms show ?thesis
      by (auto simp: store_after_def intro!: consistent_add_feedback)
  qed
qed

lemma reachable_consistent: "reachable st \<Longrightarrow> consistent st"
  by (induction rule: reachable.induct) (simp_all add: consistent_empty consistent_exec)

lemma reachable_foldl: "reachable st \<Longrightarrow> reachable (foldl (exec p) st reqs)"
  by (induction reqs arbitrary: st) (auto intro: reachable_exec)

subsection \<open>The example stores\<close>

lemma scenario_store_eq:
  "scenario_store =
   \<lparr>colleges = [\<lparr>c_id = ''c1'', c_name = ''U1'', c_created_at = 0\<rparr>],
    students =
      [\<lparr>s_id = ''sA'', s_college_id = ''c1'', s_name = ''N'', s_email = ''a@u1'', s_created_at = 0\<rparr>,
       \<lparr>s_id = ''sB'', s_college_id = ''c1'', s_name = ''N'', s_email = ''b@u1'', s_created_at = 0\<rparr>,
       \<lparr>s_id = ''sC'', s_college_id = ''c1'', s_name = ''N'', s_email = ''c@u1'', s_created_at = 0\<rparr>],
    events =
      [\<lparr>e_id = ''e1'', e_college_id = ''c1'', e_title = ''Talk'', e_description = [],
        e_event_type = ''Seminar'', e_start_time = 10, e_end_time = 12, e_capacity = 2,
        e_status = ''active'', e_created_at = 0\<rparr>],
    registrations =
      [\<lparr>r_id = ''r1'', r_student_id = ''sA'', r_event_id = ''e1'', r_registered_at = 0\<rparr>,
       \<lparr>r_id = ''r2'', r_student_id = ''sB'', r_event_id = ''e1'', r_registered_at = 0\<rparr>],
    attendances =
      [\<lparr>a_id = ''a1'', a_student_id = ''sA'', a_event_id = ''e1'', a_checked_in_at = 0,
        a_method = ''manual''\<rparr>],
    feedbacks =
      [\<lparr>f_id = ''f1'', f_student_id = ''sA'', f_event_id = ''e1'', f_rating = 5, f_comment = [],
        f_submitted_at = 0\<rparr>]\<rparr>"
  by (simp add: scenario_store_def request_defs handler_defs Let_def)

lemma thirds_store_eq:
  "thirds_store =
   \<lparr>colleges = [\<lparr>c_id = ''c1'', c_name = ''U1'', c_created_at = 0\<rparr>],
    students =
      [\<lparr>s_id = ''s1'', s_college_id = ''c1'', s_name = ''N'', s_email = ''1@u1'', s_created_at = 0\<rparr>,
       \<lparr>s_id = ''s2'', s_college_id = ''c1'', s_name = ''N'', s_email = ''2@u1'', s_created_at = 0\<rparr>,
       \<lparr>s_id = ''s3'', s_college_id = ''c1'', s_name = ''N'', s_email = ''3@u1'', s_created_at = 0\<rparr>],
    events =
      [\<lparr>e_id = ''e1'', e_college_id = ''c1'', e_title = ''Talk'', e_description = [],
        e_event_type = ''Seminar'', e_start_time = 10, e_end_time = 12, e_capacity = 3,
        e_status = ''active'', e_created_at = 0\<rparr>,
       \<lparr>e_id = ''e2'', e_college_id = ''c1'', e_title = ''Talk'', e_description = [],
        e_event_type = ''Seminar'', e_start_time = 10, e_end_time = 12, e_capacity = 3,
        e_status = ''active'', e_created_at = 0\<rparr>,
       \<lparr>e_id = ''e3'', e_college_id = ''c1'', e_title = ''Talk'', e_description = [],
        e_event_type = ''Seminar'', e_start_time = 10, e_end_time = 12, e_capacity = 3,
        e_status = ''active'', e_created_at = 0\<rparr>],
    registrations =
      [\<lparr>r_id = ''r1'', r_student_id = ''s1'', r_event_id = ''e1'', r_registered_at = 0\<rparr>,
       \<lparr>r_id = ''r2'', r_student_id = ''s2'', r_event_id = ''e1'', r_registered_at = 0\<rparr>,
       \<lparr>r_id = ''r3'', r_student_id = ''s3'', r_event_id = ''e1'', r_registered_at = 0\<rparr>,
       \<lparr>r_id = ''r4'', r_student_id = ''s1'', r_event_id = ''e2'', r_registered_at = 0\<rparr>,
       \<lparr>r_id = ''r5'', r_student_id = ''s1'', r_event_id = ''e3'', r_registered_at = 0\<rparr>],
    attendances =
      [\<lparr>a_id = ''a1'', a_student_id = ''s1'', a_event_id = ''e1'', a_checked_in_at = 0,
        a_method = ''manual''\<rparr>],
    feedbacks = []\<rparr>"
  by (simp add: thirds_store_def request_defs handler_defs Let_def)

lemma quiet_store_eq:
  "quiet_store =
   \<lparr>colleges = [\<lparr>c_id = ''c1'', c_name = ''U1'', c_created_at = 0\<rparr>],
    students = [],
    events =
      [\<lparr>e_id = ''e1'', e_college_id = ''c1'', e_title = ''Talk'', e_description = [],
        e_event_type = ''Seminar'', e_start_time = 10, e_end_time = 12, e_capacity = 2,
        e_status = ''active'', e_created_at = 0\<rparr>],
    registrations = [], attendances = [], feedbacks = []\<rparr>"
  by (simp add: quiet_store_def request_defs handler_defs Let_def)


lemma reachable_scenario: "reachable scenario_store"
  unfolding scenario_store_def by (rule reachable_foldl) (rule reachable_empty)

lemma reachable_thirds: "reachable thirds_store"
  unfolding thirds_store_def by (rule reachable_foldl) (rule reachable_empty)

lemma reachable_quiet: "reachable quiet_store"
  unfolding quiet_store_def by (rule reachable_foldl) (rule reachable_empty)


section \<open>The workflow engine: registration\<close>

text \<open>
  Claim C1, as amended. A call of \<open>register_for_event\<close> whose body has no student_id,
  or an empty one, is answered with StudentIdRequired (status 400, a ValidationError)
  before any lookup. With a non-empty student_id the checks run in this order: a
  missing event gives EventNotFound and then a missing student StudentNotFound (both
  NotFoundError); then an existing registration of the pair gives AlreadyRegistered
  (ConflictError); then a registration count at or above the capacity of the event
  gives FullCapacity (CapacityError); otherwise, the generated identifier being
  fresh, exactly one registration is appended and returned. After that success a
  second call for the same pair is answered with AlreadyRegistered, and the store
  holds exactly one registration of the pair.
\<close>

theorem register_checks_in_order:
  "(\<not> truthy v \<longrightarrow>
      register_for_event st i t eid (Some \<lparr>rb_student_id = v\<rparr>) = Inl StudentIdRequired) \<and>
   (sid \<noteq> [] \<longrightarrow>
      (get_event st eid = None \<longrightarrow>
         register_for_event st i t eid (Some \<lparr>rb_student_id = Some sid\<rparr>) = Inl EventNotFound) \<and>
      (get_event st eid \<noteq> None \<and> get_student st sid = None \<longrightarrow>
         register_for_event st i t eid (Some \<lparr>rb_student_id = Some sid\<rparr>) = Inl StudentNotFound) \<and>
      (get_event st eid \<noteq> None \<and> get_student st sid \<noteq> None
         \<and> registration_of st sid eid \<noteq> None \<longrightarrow>
         register_for_event st i t eid (Some \<lparr>rb_student_id = Some sid\<rparr>) = Inl AlreadyRegistered) \<and>
      (\<forall>ev. get_event st eid = Some ev \<and> get_student st sid \<noteq> None
         \<and> registration_of st sid eid = None
         \<and> e_capacity ev \<le> int (count_registrations st eid) \<longrightarrow>
         register_for_event st i t eid (Some \<lparr>rb_student_id = Some sid\<rparr>) = Inl FullCapacity) \<and>
      (\<forall>ev. get_event st eid = Some ev \<and> get_student st sid \<noteq> None
         \<and> registration_of st sid eid = None
         \<and> int (count_registrations st eid) < e_capacity ev
         \<and> i \<notin> set (map r_id (registrations st)) \<longrightarrow>
         (let r = \<lparr>r_id = i, r_student_id = sid, r_event_id = eid, r_registered_at = t\<rparr>;
              st' = st\<lparr>registrations := registrations st @ [r]\<rparr>
          in register_for_event st i t eid (Some \<lparr>rb_student_id = Some sid\<rparr>) = Inr (r, st')
             \<and> register_for_event st' i' t' eid (Some \<lparr>rb_student_id = Some sid\<rparr>)
                 = Inl AlreadyRegistered
             \<and> length (filter (\<lambda>x. r_student_id x = sid \<and> r_event_id x = eid)
                  (registrations st')) = 1))) \<and>
   kind_of StudentIdRequired = ValidationError \<and> kind_of EventNotFound = NotFoundError \<and>
   kind_of StudentNotFound = NotFoundError \<and> kind_of AlreadyRegistered = ConflictError \<and>
   kind_of FullCapacity = CapacityError"
proof -
  have a: "\<not> truthy v \<Longrightarrow>
      register_for_event st i t eid (Some \<lparr>rb_student_id = v\<rparr>) = Inl StudentIdRequired"
    by (simp add: register_for_event_def)
  have b: "get_event st eid = None \<Longrightarrow> sid \<noteq> [] \<Longrightarrow>
         register_for_event st i t eid (Some \<lparr>rb_student_id = Some sid\<rparr>) = Inl EventNotFound"
    by (simp add: register_for_event_def truthy_def)
  have c: "get_event st eid \<noteq> None \<and> get_student st sid = None \<Longrightarrow> sid \<noteq> [] \<Longrightarrow>
         register_for_event st i t eid (Some \<lparr>rb_student_id = Some sid\<rparr>) = Inl StudentNotFound"
    by (auto simp add: register_for_event_def truthy_def)
  have d: "get_event st eid \<noteq> None \<and> get_student st sid \<noteq> None
         \<and> registration_of st sid eid \<noteq> None \<Longrightarrow> sid \<noteq> [] \<Longrightarrow>
         register_for_event st i t eid (Some \<lparr>rb_student_id = Some sid\<rparr>) = Inl AlreadyRegistered"
    by (auto simp add: register_for_event_def truthy_def)
  have e: "get_event st eid = Some ev \<and> get_student st sid \<noteq> None
         \<and> registration_of st sid eid = None
         \<and> e_capacity ev \<le> int (count_registrations st eid) \<Longrightarrow> sid \<noteq> [] \<Longrightarrow>
         register_for_event st i t eid (Some \<lparr>rb_student_id = Some sid\<rparr>) = Inl FullCapacity" for ev
    by (auto simp add: register_for_event_def truthy_def)
  have f: "get_event st eid = Some ev \<and> get_student st sid \<noteq> None
         \<and> registration_of st sid eid = None
         \<and> int (count_registrations st eid) < e_capacity ev
         \<and> i \<notin> set (map r_id (registrations st)) \<Longrightarrow> sid \<noteq> [] \<Longrightarrow>
         (let r = \<lparr>r_id = i, r_student_id = sid, r_event_id = eid, r_registered_at = t\<rparr>;
              st' = st\<lparr>registrations := registrations st @ [r]\<rparr>
          in register_for_event st i t eid (Some \<lparr>rb_student_id = Some sid\<rparr>) = Inr (r, st')
             \<and> register_for_event st' i' t' eid (Some \<lparr>rb_student_id = Some sid\<rparr>)
                 = Inl AlreadyRegistered
             \<and> length (filter (\<lambda>x. r_student_id x = sid \<and> r_event_id x = eid)
                  (registrations st')) = 1)" for ev
  proof -
    assume h: "get_event st eid = Some ev \<and> get_student st sid \<noteq> None
         \<and> registration_of st sid eid = None
         \<and> int (count_registrations st eid) < e_capacity ev
         \<and> i \<notin> set (map r_id (registrations st))" and s: "sid \<noteq> []"
    let ?r = "\<lparr>r_id = i, r_student_id = sid, r_event_id = eid, r_registered_at = t\<rparr>"
    let ?st' = "st\<lparr>registrations := registrations st @ [?r]\<rparr>"
    have 1: "register_for_event st i t eid (Some \<lparr>rb_student_id = Some sid\<rparr>) = Inr (?r, ?st')"
      using h s by (auto simp add: register_for_event_def add_registration_def truthy_def)
    have "registration_of ?st' sid eid \<noteq> None"
      by (simp add: registration_of_def find_snoc_not_None)
    moreover have "get_event ?st' eid = Some ev" "get_student ?st' sid \<noteq> None"
      using h by (simp_all add: get_event_def get_student_def)
    ultimately have 2: "register_for_event ?st' i' t' eid (Some \<lparr>rb_student_id = Some sid\<rparr>)
                 = Inl AlreadyRegistered"
      using s by (auto simp add: register_for_event_def truthy_def)
    have "filter (\<lambda>x. r_student_id x = sid \<and> r_event_id x = eid) (registrations st) = []"
      using h by (auto simp: registration_of_def find_None_conv filter_empty_conv)
    then have 3: "length (filter (\<lambda>x. r_student_id x = sid \<and> r_event_id x = eid)
                  (registrations ?st')) = 1"
      by simp
    from 1 2 3 show ?thesis by (simp add: Let_def)
  qed
  show ?thesis
    by (intro conjI impI allI) (erule a b c d e f kind_of.simps | rule kind_of.simps | assumption)+
qed

text \<open>
  The theorem at the scenario store: student C is refused for capacity, A is already
  registered, an unknown student and an unknown event are not found; and at the
  second example store student s2 registers for event e2.
\<close>

theorem register_checks_in_order_witness:
  "register_for_event scenario_store ''r9'' 1 ''e1'' (Some \<lparr>rb_student_id = Some ''sC''\<rparr>)
     = Inl FullCapacity \<and>
   register_for_event scenario_store ''r9'' 1 ''e1'' (Some \<lparr>rb_student_id = Some ''sA''\<rparr>)
     = Inl AlreadyRegistered \<and>
   register_for_event scenario_store ''r9'' 1 ''e1'' (Some \<lparr>rb_student_id = Some ''sZ''\<rparr>)
     = Inl StudentNotFound \<and>
   register_for_event scenario_store ''r9'' 1 ''e9'' (Some \<lparr>rb_student_id = Some ''sA''\<rparr>)
     = Inl EventNotFound \<and>
   register_for_event scenario_store ''r9'' 1 ''e1'' (Some \<lparr>rb_student_id = None\<rparr>)
     = Inl StudentIdRequired \<and>
   (\<exists>r st'. register_for_event thirds_store ''r9'' 1 ''e2'' (Some \<lparr>rb_student_id = Some ''s2''\<rparr>)
       = Inr (r, st') \<and> length (registrations st') = 6)"
  using register_checks_in_order[where st = scenario_store and i = "''r9''" and t = 1
          and eid = "''e1''" and sid = "''sC''" and v = None]
        register_checks_in_order[where st = scenario_store and i = "''r9''" and t = 1
          and eid = "''e1''" and sid = "''sA''" and v = None]
        register_checks_in_order[where st = scenario_store and i = "''r9''" and t = 1
          and eid = "''e1''" and sid = "''sZ''" and v = None]
        register_checks_in_order[where st = scenario_store and i = "''r9''" and t = 1
          and eid = "''e9''" and sid = "''sA''" and v = None]
        register_checks_in_order[where st = thirds_store and i = "''r9''" and t = 1
          and eid = "''e2''" and sid = "''s2''" and v = None]
  by (simp add: scenario_store_eq thirds_store_eq get_event_def get_student_def
      registration_of_def count_registrations_def truthy_def Let_def)

text \<open>
  C1 as stated fails for an empty student_id: neither the event e9 nor a student with
  the empty identifier exists, and the answer is StudentIdRequired, a ValidationError,
  where the claim expects a NotFoundError.
\<close>

theorem register_empty_student_id_counterexample:
  "get_event quiet_store ''e9'' = None \<and> get_student quiet_store [] = None \<and>
   register_for_event quiet_store ''r1'' 1 ''e9'' (Some \<lparr>rb_student_id = Some []\<rparr>)
     = Inl StudentIdRequired \<and>
   kind_of StudentIdRequired \<noteq> NotFoundError"
  by (simp add: quiet_store_eq register_for_event_def get_event_def get_student_def truthy_def)





section \<open>The workflow engine: attendance and feedback\<close>

lemma distinct_map_filter_le_1:
  "distinct (map k xs) \<Longrightarrow> length (filter (\<lambda>x. k x = v) xs) \<le> 1"
  by (induction xs) (auto simp: filter_empty_conv rev_image_eqI)

lemma reachable_registered_ids:
  assumes "reachable st" "registration_of st sid eid \<noteq> None"
  shows "sid \<noteq> [] \<and> get_student st sid \<noteq> None \<and> get_event st eid \<noteq> None"
proof -
  from assms(2) obtain r where "registration_of st sid eid = Some r" by auto
  then have "r \<in> set (registrations st) \<and> r_student_id r = sid \<and> r_event_id r = eid"
    unfolding registration_of_def by (auto dest: find_Some_mem)
  with reachable_consistent[OF assms(1)] show ?thesis
    by (auto simp: consistent_def referential_def)
qed

lemma reachable_attended_registered:
  assumes "reachable st" "attendance_of st sid eid \<noteq> None"
  shows "sid \<noteq> [] \<and> registration_of st sid eid \<noteq> None"
proof -
  from assms(2) obtain a where "attendance_of st sid eid = Some a" by auto
  then have "a \<in> set (attendances st) \<and> a_student_id a = sid \<and> a_event_id a = eid"
    unfolding attendance_of_def by (auto dest: find_Some_mem)
  with reachable_consistent[OF assms(1)] show ?thesis
    by (auto simp: consistent_def referential_def)
qed

lemma reachable_feedback_attended:
  assumes "reachable st" "feedback_of st sid eid \<noteq> None"
  shows "sid \<noteq> [] \<and> attendance_of st sid eid \<noteq> None"
proof -
  from assms(2) obtain f where "feedback_of st sid eid = Some f" by auto
  then have "f \<in> set (feedbacks st) \<and> f_student_id f = sid \<and> f_event_id f = eid"
    unfolding feedback_of_def by (auto dest: find_Some_mem)
  with reachable_consistent[OF assms(1)] show ?thesis
    by (auto simp: consistent_def referential_def)
qed

text \<open>
  Claim C3, as amended. In every reachable store, for a non-empty student identifier
  and a rating from 1 to 5: marking attendance without a registration of the pair is
  answered with NotRegistered, submitting feedback without an attendance of the pair
  with NotAttended (both ForbiddenError); marking attendance again is answered with
  AttendanceAlreadyMarked and submitting feedback again with FeedbackAlreadySubmitted
  (both ConflictError); and the store holds at most one attendance and at most one
  feedback of the pair.
\<close>

theorem workflow_forward_only:
  assumes "reachable st" and "sid \<noteq> []" and "1 \<le> rating" and "rating \<le> 5"
  shows
    "(registration_of st sid eid = None \<longrightarrow>
        mark_attendance st i t eid (Some \<lparr>ab_student_id = Some sid, ab_method = m\<rparr>)
          = Inl NotRegistered) \<and>
     (attendance_of st sid eid = None \<longrightarrow>
        submit_feedback st i t eid
          (Some \<lparr>fb_student_id = Some sid, fb_rating = Some rating, fb_comment = c\<rparr>)
          = Inl NotAttended) \<and>
     (attendance_of st sid eid \<noteq> None \<longrightarrow>
        mark_attendance st i t eid (Some \<lparr>ab_student_id = Some sid, ab_method = m\<rparr>)
          = Inl AttendanceAlreadyMarked) \<and>
     (feedback_of st sid eid \<noteq> None \<longrightarrow>
        submit_feedback st i t eid
          (Some \<lparr>fb_student_id = Some sid, fb_rating = Some rating, fb_comment = c\<rparr>)
          = Inl FeedbackAlreadySubmitted) \<and>
     length (filter (\<lambda>a. a_student_id a = sid \<and> a_event_id a = eid) (attendances st)) \<le> 1 \<and>
     length (filter (\<lambda>f. f_student_id f = sid \<and> f_event_id f = eid) (feedbacks st)) \<le> 1 \<and>
     kind_of NotRegistered = ForbiddenError \<and> kind_of NotAttended = ForbiddenError \<and>
     kind_of AttendanceAlreadyMarked = ConflictError \<and>
     kind_of FeedbackAlreadySubmitted = ConflictError"
proof -
  have a: "registration_of st sid eid = None \<Longrightarrow>
        mark_attendance st i t eid (Some \<lparr>ab_student_id = Some sid, ab_method = m\<rparr>)
          = Inl NotRegistered"
    using assms(2) by (simp add: mark_attendance_def truthy_def)
  have b: "attendance_of st sid eid = None \<Longrightarrow>
        submit_feedback st i t eid
          (Some \<lparr>fb_student_id = Some sid, fb_rating = Some rating, fb_comment = c\<rparr>)
          = Inl NotAttended"
    using assms(2-4) by (auto simp add: submit_feedback_def truthy_def)
  have c: "mark_attendance st i t eid (Some \<lparr>ab_student_id = Some sid, ab_method = m\<rparr>)
          = Inl AttendanceAlreadyMarked" if "attendance_of st sid eid \<noteq> None"
    using reachable_attended_registered[OF assms(1) that] that assms(2)
    by (auto simp add: mark_attendance_def truthy_def)
  have d: "submit_feedback st i t eid
          (Some \<lparr>fb_student_id = Some sid, fb_rating = Some rating, fb_comment = c\<rparr>)
          = Inl FeedbackAlreadySubmitted" if "feedback_of st sid eid \<noteq> None"
    using reachable_feedback_attended[OF assms(1) that] that assms(2-4)
    by (auto simp add: submit_feedback_def truthy_def)
  have "distinct (map (\<lambda>a. (a_student_id a, a_event_id a)) (attendances st))"
    "distinct (map (\<lambda>f. (f_student_id f, f_event_id f)) (feedbacks st))"
    using reachable_consistent[OF assms(1)] by (simp_all add: consistent_def one_per_pair_def)
  from distinct_map_filter_le_1[OF this(1), of "(sid, eid)"]
       distinct_map_filter_le_1[OF this(2), of "(sid, eid)"]
  have e: "length (filter (\<lambda>a. a_student_id a = sid \<and> a_event_id a = eid) (attendances st)) \<le> 1"
    and f: "length (filter (\<lambda>f. f_student_id f = sid \<and> f_event_id f = eid) (feedbacks st)) \<le> 1"
    by simp_all
  show ?thesis
    by (intro conjI impI) (erule a b c d | rule e f kind_of.simps)+
qed

text \<open>
  At the scenario store: C is not registered, B has not attended, A has attended and
  has given feedback.
\<close>

theorem workflow_forward_only_witness:
  "mark_attendance scenario_store ''a9'' 1 ''e1'' (Some \<lparr>ab_student_id = Some ''sC'', ab_method = None\<rparr>)
     = Inl NotRegistered \<and>
   submit_feedback scenario_store ''f9'' 1 ''e1''
     (Some \<lparr>fb_student_id = Some ''sB'', fb_rating = Some 4, fb_comment = None\<rparr>) = Inl NotAttended \<and>
   mark_attendance scenario_store ''a9'' 1 ''e1'' (Some \<lparr>ab_student_id = Some ''sA'', ab_method = None\<rparr>)
     = Inl AttendanceAlreadyMarked \<and>
   submit_feedback scenario_store ''f9'' 1 ''e1''
     (Some \<lparr>fb_student_id = Some ''sA'', fb_rating = Some 4, fb_comment = None\<rparr>)
     = Inl FeedbackAlreadySubmitted"
proof -
  have st: "registration_of scenario_store ''sC'' ''e1'' = None"
    "attendance_of scenario_store ''sB'' ''e1'' = None"
    "attendance_of scenario_store ''sA'' ''e1'' \<noteq> None"
    "feedback_of scenario_store ''sA'' ''e1'' \<noteq> None"
    by (simp_all add: scenario_store_eq registration_of_def attendance_of_def feedback_of_def)
  from st
    workflow_forward_only[OF reachable_scenario, where sid = "''sC''" and rating = 4
      and eid = "''e1''" and i = "''a9''" and t = 1 and m = None and c = None]
    workflow_forward_only[OF reachable_scenario, where sid = "''sB''" and rating = 4
      and eid = "''e1''" and i = "''f9''" and t = 1 and m = None and c = None]
    workflow_forward_only[OF reachable_scenario, where sid = "''sA''" and rating = 4
      and eid = "''e1''" and i = "''a9''" and t = 1 and m = None and c = None]
    workflow_forward_only[OF reachable_scenario, where sid = "''sA''" and rating = 4
      and eid = "''e1''" and i = "''f9''" and t = 1 and m = None and c = None]
  show ?thesis by simp
qed

text \<open>
  C3 as stated fails for a rating outside 1 to 5: student B has no attendance, and
  feedback with rating 6 is answered with RatingOutOfRange, a ValidationError, where
  the claim expects a ForbiddenError. The rating is checked before the attendance.
\<close>

theorem feedback_without_attendance_counterexample:
  "get_student scenario_store ''sB'' \<noteq> None \<and> get_event scenario_store ''e1'' \<noteq> None \<and>
   attendance_of scenario_store ''sB'' ''e1'' = None \<and>
   submit_feedback scenario_store ''f9'' 1 ''e1''
     (Some \<lparr>fb_student_id = Some ''sB'', fb_rating = Some 6, fb_comment = None\<rparr>)
     = Inl RatingOutOfRange \<and>
   kind_of RatingOutOfRange \<noteq> ForbiddenError"
  by (simp add: scenario_store_eq submit_feedback_def attendance_of_def get_student_def
      get_event_def truthy_def)

text \<open>
  Claim C4, as amended. In every reachable store, for a non-empty student identifier
  such that the student or the event does not exist: \<open>register_for_event\<close> answers
  with a NotFoundError; \<open>mark_attendance\<close> answers with NotRegistered and
  \<open>submit_feedback\<close>, given a rating from 1 to 5, with NotAttended (both
  ForbiddenError), since neither handler looks up the student or the event and no
  registration or attendance of such a pair exists.
\<close>

theorem unknown_student_or_event:
  assumes "reachable st" and "sid \<noteq> []"
    and "get_student st sid = None \<or> get_event st eid = None"
    and "1 \<le> rating" and "rating \<le> 5"
  shows
    "(\<exists>err. register_for_event st i t eid (Some \<lparr>rb_student_id = Some sid\<rparr>) = Inl err
        \<and> kind_of err = NotFoundError) \<and>
     mark_attendance st i t eid (Some \<lparr>ab_student_id = Some sid, ab_method = m\<rparr>)
       = Inl NotRegistered \<and>
     submit_feedback st i t eid
       (Some \<lparr>fb_student_id = Some sid, fb_rating = Some rating, fb_comment = c\<rparr>)
       = Inl NotAttended \<and>
     kind_of NotRegistered = ForbiddenError \<and> kind_of NotAttended = ForbiddenError"
proof -
  have nr: "registration_of st sid eid = None"
    using reachable_registered_ids[OF assms(1), of sid eid] assms(3) by (cases "registration_of st sid eid") auto
  have na: "attendance_of st sid eid = None"
    using reachable_attended_registered[OF assms(1), of sid eid] nr by (cases "attendance_of st sid eid") auto
  have a: "\<exists>err. register_for_event st i t eid (Some \<lparr>rb_student_id = Some sid\<rparr>) = Inl err
        \<and> kind_of err = NotFoundError"
    using assms(2,3) by (auto simp: register_for_event_def truthy_def split: option.splits)
  have b: "mark_attendance st i t eid (Some \<lparr>ab_student_id = Some sid, ab_method = m\<rparr>)
       = Inl NotRegistered"
    using nr assms(2) by (simp add: mark_attendance_def truthy_def)
  have c: "submit_feedback st i t eid
       (Some \<lparr>fb_student_id = Some sid, fb_rating = Some rating, fb_comment = c\<rparr>)
       = Inl NotAttended"
    using na assms(2,4,5) by (auto simp add: submit_feedback_def truthy_def)
  from a b c show ?thesis by simp
qed

text \<open>At the scenario store, with the unknown student sZ.\<close>

theorem unknown_student_or_event_witness:
  "register_for_event scenario_store ''r9'' 1 ''e1'' (Some \<lparr>rb_student_id = Some ''sZ''\<rparr>)
     = Inl StudentNotFound \<and>
   mark_attendance scenario_store ''r9'' 1 ''e1'' (Some \<lparr>ab_student_id = Some ''sZ'', ab_method = None\<rparr>)
     = Inl NotRegistered \<and>
   submit_feedback scenario_store ''r9'' 1 ''e1''
     (Some \<lparr>fb_student_id = Some ''sZ'', fb_rating = Some 3, fb_comment = None\<rparr>) = Inl NotAttended"
proof -
  have st: "get_student scenario_store ''sZ'' = None" "get_event scenario_store ''e1'' \<noteq> None"
    by (simp_all add: scenario_store_eq get_student_def get_event_def)
  from unknown_student_or_event[OF reachable_scenario, where sid = "''sZ''" and eid = "''e1''"
      and rating = 3 and i = "''r9''" and t = 1 and m = None and c = None] st
  show ?thesis by (auto simp: register_for_event_def truthy_def)
qed

text \<open>
  C4 as stated fails for \<open>mark_attendance\<close>: with an unknown student and an unknown
  event the answer is NotRegistered (status 403), not a NotFoundError.
\<close>

theorem attendance_unknown_ids_counterexample:
  "get_student scenario_store ''sZ'' = None \<and> get_event scenario_store ''e9'' = None \<and>
   mark_attendance scenario_store ''a9'' 1 ''e9''
     (Some \<lparr>ab_student_id = Some ''sZ'', ab_method = None\<rparr>) = Inl NotRegistered \<and>
   kind_of NotRegistered \<noteq> NotFoundError"
  by (simp add: scenario_store_eq mark_attendance_def registration_of_def get_student_def
      get_event_def truthy_def)

text \<open>
  Claim C8. \<open>submit_feedback\<close> answers every body whose rating is absent, below 1
  or above 5 with a ValidationError (status 400), whatever the store and the rest of
  the body, so also for a student who never attended: the rating is checked before
  the attendance is queried. In a reachable store, for a student with an attendance
  of the pair and no feedback yet, a rating from 1 to 5 (1 and 5 included) succeeds:
  the feedback is appended to the table and returned, the generated identifier being
  fresh.
\<close>

theorem feedback_rating_validated:
  "((fb_rating b = None \<or> (\<exists>r. fb_rating b = Some r \<and> (r < 1 \<or> 5 < r))) \<longrightarrow>
      (\<exists>err. submit_feedback st i t eid (Some b) = Inl err
         \<and> kind_of err = ValidationError \<and> status_code err = 400)) \<and>
   (reachable st \<and> attendance_of st sid eid \<noteq> None \<and> feedback_of st sid eid = None
      \<and> i \<notin> set (map f_id (feedbacks st)) \<and> 1 \<le> rating \<and> rating \<le> 5 \<longrightarrow>
      (let f = \<lparr>f_id = i, f_student_id = sid, f_event_id = eid, f_rating = rating,
                 f_comment = (case c of None \<Rightarrow> [] | Some x \<Rightarrow> x), f_submitted_at = t\<rparr>
       in submit_feedback st i t eid
            (Some \<lparr>fb_student_id = Some sid, fb_rating = Some rating, fb_comment = c\<rparr>)
          = Inr (f, st\<lparr>feedbacks := feedbacks st @ [f]\<rparr>)))"
proof (intro conjI impI)
  assume "fb_rating b = None \<or> (\<exists>r. fb_rating b = Some r \<and> (r < 1 \<or> 5 < r))"
  then show "\<exists>err. submit_feedback st i t eid (Some b) = Inl err
         \<and> kind_of err = ValidationError \<and> status_code err = 400"
    by (auto simp: submit_feedback_def Let_def)
next
  assume h: "reachable st \<and> attendance_of st sid eid \<noteq> None \<and> feedback_of st sid eid = None
      \<and> i \<notin> set (map f_id (feedbacks st)) \<and> 1 \<le> rating \<and> rating \<le> 5"
  then have "sid \<noteq> []"
    using reachable_attended_registered[of st sid eid] by simp
  with h show "let f = \<lparr>f_id = i, f_student_id = sid, f_event_id = eid, f_rating = rating,
                 f_comment = (case c of None \<Rightarrow> [] | Some x \<Rightarrow> x), f_submitted_at = t\<rparr>
       in submit_feedback st i t eid
            (Some \<lparr>fb_student_id = Some sid, fb_rating = Some rating, fb_comment = c\<rparr>)
          = Inr (f, st\<lparr>feedbacks := feedbacks st @ [f]\<rparr>)"
    by (auto simp: submit_feedback_def add_feedback_def truthy_def Let_def)
qed

text \<open>
  At the second example store: ratings 0, 6 and none are refused for student s2, who
  never attended; ratings 1 and 5 are accepted from student s1, who did.
\<close>

theorem feedback_rating_validated_witness:
  "submit_feedback thirds_store ''f1'' 1 ''e1''
     (Some \<lparr>fb_student_id = Some ''s2'', fb_rating = Some 0, fb_comment = None\<rparr>) = Inl RatingRequired \<and>
   submit_feedback thirds_store ''f1'' 1 ''e1''
     (Some \<lparr>fb_student_id = Some ''s2'', fb_rating = Some 6, fb_comment = None\<rparr>) = Inl RatingOutOfRange \<and>
   submit_feedback thirds_store ''f1'' 1 ''e1''
     (Some \<lparr>fb_student_id = Some ''s2'', fb_rating = None, fb_comment = None\<rparr>) = Inl RatingRequired \<and>
   (\<exists>f st'. submit_feedback thirds_store ''f1'' 1 ''e1''
       (Some \<lparr>fb_student_id = Some ''s1'', fb_rating = Some 1, fb_comment = None\<rparr>) = Inr (f, st')
       \<and> f_rating f = 1 \<and> feedbacks st' = [f]) \<and>
   (\<exists>f st'. submit_feedback thirds_store ''f1'' 1 ''e1''
       (Some \<lparr>fb_student_id = Some ''s1'', fb_rating = Some 5, fb_comment = None\<rparr>) = Inr (f, st')
       \<and> f_rating f = 5 \<and> feedbacks st' = [f])"
proof -
  have st: "attendance_of thirds_store ''s1'' ''e1'' \<noteq> None"
    "feedback_of thirds_store ''s1'' ''e1'' = None" "feedbacks thirds_store = []"
    "attendance_of thirds_store ''s2'' ''e1'' = None"
    by (simp_all add: thirds_store_eq attendance_of_def feedback_of_def)
  from st reachable_thirds
    feedback_rating_validated[where st = thirds_store and i = "''f1''" and t = 1
      and eid = "''e1''" and sid = "''s1''" and rating = 1 and c = None
      and b = "\<lparr>fb_student_id = Some ''s2'', fb_rating = Some 0, fb_comment = None\<rparr>"]
    feedback_rating_validated[where st = thirds_store and i = "''f1''" and t = 1
      and eid = "''e1''" and sid = "''s1''" and rating = 5 and c = None
      and b = "\<lparr>fb_student_id = Some ''s2'', fb_rating = Some 6, fb_comment = None\<rparr>"]
    feedback_rating_validated[where st = thirds_store and i = "''f1''" and t = 1
      and eid = "''e1''" and sid = "''s1''" and rating = 5 and c = None
      and b = "\<lparr>fb_student_id = Some ''s2'', fb_rating = None, fb_comment = None\<rparr>"]
  show ?thesis
    by (simp add: Let_def) (simp add: submit_feedback_def truthy_def)
qed

section \<open>Event creation\<close>




section \<open>The reporting engine\<close>

subsection \<open>Joins, groups, order and limit\<close>

lemma group_count_row:
  "(k, n) \<in> set (group_count ks) \<Longrightarrow> k \<in> set ks \<and> n = length (filter (\<lambda>x. x = k) ks) \<and> 1 \<le> n"
proof -
  assume "(k, n) \<in> set (group_count ks)"
  then have k: "k \<in> set ks" and n: "n = length (filter (\<lambda>x. x = k) ks)"
    by (auto simp: group_count_def)
  from k have "filter (\<lambda>x. x = k) ks \<noteq> []" by (auto simp: filter_empty_conv)
  then have "1 \<le> length (filter (\<lambda>x. x = k) ks)" by (cases "filter (\<lambda>x. x = k) ks") auto
  with k n show ?thesis by simp
qed

lemma length_group_count: "length (group_count ks) = card (set ks)"
  by (simp add: group_count_def length_remdups_card_conv)

lemma set_order_by_desc: "set (order_by_desc rows) = set rows"
  by (simp add: order_by_desc_def)

lemma length_order_by_desc: "length (order_by_desc rows) = length rows"
  by (simp add: order_by_desc_def)

lemma set_limit_rows: "set (limit_rows n rows) \<subseteq> set rows"
  by (auto simp: limit_rows_def dest: in_set_takeD)

lemma length_limit_rows: "length (limit_rows n rows) \<le> length rows"
  by (simp add: limit_rows_def)

lemma inner_join_mem:
  "(x, y) \<in> set (inner_join xs ys on) \<longleftrightarrow> x \<in> set xs \<and> y \<in> set ys \<and> on x y"
  by (auto simp: inner_join_def)

subsection \<open>event_popularity\<close>

text \<open>
  Claim C5, evaluated where it fails. The query of \<open>event_popularity\<close> is an inner
  join of events with registrations, so an event without registrations yields no
  row: in the reachable store that holds the single event e1 and no registration the
  report is empty, where the claim expects one row for e1 with count 0.
\<close>

theorem event_popularity_skips_unregistered_event:
  "reachable quiet_store \<and> map e_id (events quiet_store) = [''e1''] \<and>
   count_registrations quiet_store ''e1'' = 0 \<and>
   event_popularity quiet_store None = []"
  using reachable_quiet
  by (simp add: quiet_store_eq count_registrations_def event_popularity_def inner_join_def
      group_count_def order_by_desc_def truthy_def)

subsection \<open>top_active_students\<close>

text \<open>
  Claim C10. For every store, college filter and limit, every row \<open>top_active_students\<close>
  returns belongs to a student of the store (of the given college when one is
  given) who has at least one attendance record, and carries a count of at least 1.
  The result is no longer than the list of such students, so when fewer than
  \<open>limit\<close> students have an attendance it has fewer than \<open>limit\<close> rows.
\<close>

theorem top_active_students_attended:
  assumes "top_active_students st college_id limit_a = Inr rows"
  shows
    "(\<forall>row \<in> set rows.
        1 \<le> act_attendance_count row \<and>
        (\<exists>a \<in> set (attendances st). a_student_id a = act_student_id row) \<and>
        (\<exists>s \<in> set (students st). s_id s = act_student_id row \<and> s_name s = act_name row
           \<and> s_email s = act_email row
           \<and> (truthy college_id \<longrightarrow> s_college_id s = the college_id))) \<and>
     length rows \<le> length (filter (\<lambda>s. (\<exists>a \<in> set (attendances st). a_student_id a = s_id s)
                       \<and> (truthy college_id \<longrightarrow> s_college_id s = the college_id)) (students st)) \<and>
     (\<forall>n. (limit_a = LimitValue n \<or> limit_a = LimitAbsent \<and> n = 3)
          \<and> int (length (filter (\<lambda>s. (\<exists>a \<in> set (attendances st). a_student_id a = s_id s)
                       \<and> (truthy college_id \<longrightarrow> s_college_id s = the college_id)) (students st))) < n
        \<longrightarrow> int (length rows) < n)"
proof -
  define lmt where "lmt = (case limit_a of LimitValue n \<Rightarrow> n | _ \<Rightarrow> 3)"
  define joined where
    "joined = inner_join (students st) (attendances st) (\<lambda>s a. s_id s = a_student_id a)"
  define query where
    "query = (if truthy college_id
              then filter (\<lambda>(s, a). s_college_id s = the college_id) joined else joined)"
  define keys where "keys = map (\<lambda>(s, a). (s_id s, s_name s, s_email s)) query"
  define results where "results = limit_rows lmt (order_by_desc (group_count keys))"
  define attending where
    "attending = filter (\<lambda>s. (\<exists>a \<in> set (attendances st). a_student_id a = s_id s)
                       \<and> (truthy college_id \<longrightarrow> s_college_id s = the college_id)) (students st)"
  have rows: "rows = map (\<lambda>((i, name, email), n).
                         \<lparr>act_student_id = i, act_name = name, act_email = email,
                          act_attendance_count = n\<rparr>) results"
    using assms
    by (cases limit_a) (auto simp: top_active_students_def Let_def lmt_def joined_def
        query_def keys_def results_def sqlite_integer_def split: if_splits)
  have q: "(s, a) \<in> set query \<Longrightarrow> s \<in> set (students st) \<and> a \<in> set (attendances st)
      \<and> s_id s = a_student_id a \<and> (truthy college_id \<longrightarrow> s_college_id s = the college_id)"
    for s a
    by (auto simp: query_def joined_def inner_join_mem split: if_splits)
  have res: "set results \<subseteq> set (group_count keys)"
    unfolding results_def using set_limit_rows set_order_by_desc by fastforce
  have keys_att: "set keys \<subseteq> (\<lambda>s. (s_id s, s_name s, s_email s)) ` set attending"
  proof
    fix k assume "k \<in> set keys"
    then obtain s a where sa: "(s, a) \<in> set query" "k = (s_id s, s_name s, s_email s)"
      by (auto simp: keys_def)
    from q[OF sa(1)] have "s \<in> set attending"
      by (auto simp: attending_def)
    with sa(2) show "k \<in> (\<lambda>s. (s_id s, s_name s, s_email s)) ` set attending" by blast
  qed
  have row: "1 \<le> act_attendance_count row \<and>
        (\<exists>a \<in> set (attendances st). a_student_id a = act_student_id row) \<and>
        (\<exists>s \<in> set (students st). s_id s = act_student_id row \<and> s_name s = act_name row
           \<and> s_email s = act_email row
           \<and> (truthy college_id \<longrightarrow> s_college_id s = the college_id))"
    if "row \<in> set rows" for row
  proof -
    from that rows obtain i name email n where r: "((i, name, email), n) \<in> set results"
      "row = \<lparr>act_student_id = i, act_name = name, act_email = email, act_attendance_count = n\<rparr>"
      by auto
    from r(1) res have g: "((i, name, email), n) \<in> set (group_count keys)" by blast
    from group_count_row[OF g] have k: "(i, name, email) \<in> set keys" and n: "1 \<le> n" by simp_all
    from k obtain s a where sa: "(s, a) \<in> set query" "(i, name, email) = (s_id s, s_name s, s_email s)"
      by (auto simp: keys_def)
    from q[OF sa(1)] sa(2) r(2) n show ?thesis by auto
  qed
  have "length rows = length results" by (simp add: rows)
  also have "\<dots> \<le> length (group_count keys)"
    unfolding results_def using length_limit_rows[of lmt "order_by_desc (group_count keys)"]
    by (simp add: length_order_by_desc)
  also have "\<dots> = card (set keys)" by (rule length_group_count)
  also have "\<dots> \<le> card ((\<lambda>s. (s_id s, s_name s, s_email s)) ` set attending)"
    by (rule card_mono[OF _ keys_att]) simp
  also have "\<dots> \<le> card (set attending)" by (rule card_image_le) simp
  also have "\<dots> \<le> length attending" by (rule card_length)
  finally have len: "length rows \<le> length attending" .
  then have limit_a: "int (length attending) < n \<Longrightarrow> int (length rows) < n" for n by simp
  from row len limit_a show ?thesis unfolding attending_def by blast
qed

text \<open>
  At the second example store only s1 of the three students has attended: with the
  default limit 3 the report is the single row of s1.
\<close>

theorem top_active_students_attended_witness:
  "top_active_students thirds_store None LimitAbsent
     = Inr [\<lparr>act_student_id = ''s1'', act_name = ''N'', act_email = ''1@u1'',
             act_attendance_count = 1\<rparr>] \<and>
   length (students thirds_store) = 3 \<and>
   map a_student_id (attendances thirds_store) = [''s1'']"
proof -
  have e: "top_active_students thirds_store None LimitAbsent
     = Inr [\<lparr>act_student_id = ''s1'', act_name = ''N'', act_email = ''1@u1'',
             act_attendance_count = 1\<rparr>]"
    by (simp add: thirds_store_eq top_active_students_def inner_join_def group_count_def
        order_by_desc_def limit_rows_def truthy_def sqlite_integer_def)
  from top_active_students_attended[OF e] e show ?thesis
    by (simp add: thirds_store_eq)
qed

subsection \<open>Rounding and averages\<close>

lemma round_half_even_close: "\<bar>of_int (round_half_even q) - q\<bar> \<le> 1 / 2"
proof -
  have f: "of_int \<lfloor>q\<rfloor> \<le> q" "q < of_int \<lfloor>q\<rfloor> + 1" by linarith+
  consider "q - of_int \<lfloor>q\<rfloor> < 1 / 2" | "1 / 2 < q - of_int \<lfloor>q\<rfloor>"
    | "q - of_int \<lfloor>q\<rfloor> = 1 / 2" by linarith
  then show ?thesis
  proof cases
    case 1
    then have "round_half_even q = \<lfloor>q\<rfloor>" by (simp add: round_half_even_def Let_def)
    with 1 f show ?thesis by simp
  next
    case 2
    then have "round_half_even q = \<lfloor>q\<rfloor> + 1" by (simp add: round_half_even_def Let_def)
    with 2 f show ?thesis by simp
  next
    case 3
    then have "round_half_even q = \<lfloor>q\<rfloor> \<or> round_half_even q = \<lfloor>q\<rfloor> + 1"
      by (simp add: round_half_even_def Let_def)
    with 3 show ?thesis by auto
  qed
qed

lemma nearest_hundredth_close: "\<bar>nearest_hundredth q - q\<bar> \<le> 1 / 200"
proof -
  define r :: rat where "r = of_int (round_half_even (q * 100))"
  have h: "\<bar>r - q * 100\<bar> \<le> 1 / 2"
    unfolding r_def by (rule round_half_even_close)
  have "nearest_hundredth q - q = (r - q * 100) / 100"
    by (simp add: nearest_hundredth_def r_def diff_divide_distrib)
  then have "\<bar>nearest_hundredth q - q\<bar> = \<bar>r - q * 100\<bar> / 100"
    by (simp only: abs_divide abs_numeral)
  with h show ?thesis by simp
qed

lemma two_decimal_hundredths: "two_decimal (of_int k / 100)"
  by (simp add: two_decimal_def)

lemma two_decimal_0: "two_decimal 0"
  by (simp add: two_decimal_def)

lemma nearest_hundredth_rounds: "rounds_to_two_decimals nearest_hundredth"
  unfolding rounds_to_two_decimals_def
proof (intro allI conjI)
  fix q
  show "two_decimal (nearest_hundredth q)"
    unfolding nearest_hundredth_def by (rule two_decimal_hundredths)
  show "\<bar>nearest_hundredth q - q\<bar> \<le> 1 / 200"
    by (rule nearest_hundredth_close)
qed

lemma two_decimal_unique:
  assumes "two_decimal x" "two_decimal y" "\<bar>x - y\<bar> \<le> 1 / 200"
  shows "x = y"
proof -
  define k where "k = \<lfloor>x * 100\<rfloor>"
  define m where "m = \<lfloor>y * 100\<rfloor>"
  have x: "x * 100 = of_int k"
    using assms(1) unfolding two_decimal_def k_def by (rule sym)
  have y: "y * 100 = of_int m"
    using assms(2) unfolding two_decimal_def m_def by (rule sym)
  have "\<bar>x * 100 - y * 100\<bar> \<le> 1 / 2"
    using assms(3) by (simp add: abs_if split: if_splits)
  then have "\<bar>(of_int (k - m) :: rat)\<bar> \<le> 1 / 2"
    unfolding x y by simp
  then have "\<bar>(of_int (k - m) :: rat)\<bar> < 1" by linarith
  then have "\<bar>k - m\<bar> < 1"
    by (metis of_int_abs of_int_less_1_iff)
  then have "k = m" by simp
  with x y have "x * 100 = y * 100" by simp
  then show ?thesis by simp
qed

lemma round2_fixes_two_decimal:
  "rounds_to_two_decimals round2 \<Longrightarrow> two_decimal q \<Longrightarrow> round2 q = q"
  by (rule two_decimal_unique) (simp_all add: rounds_to_two_decimals_def)

lemma round2_0: "rounds_to_two_decimals round2 \<Longrightarrow> round2 0 = 0"
  by (rule round2_fixes_two_decimal) (simp_all add: two_decimal_0)

lemma third_not_two_decimal: "\<not> two_decimal (1 / 3 * 100)"
proof -
  have fl: "\<lfloor>10000 / 3 :: rat\<rfloor> = 3333"
    by (rule floor_unique) simp_all
  show ?thesis by (simp add: two_decimal_def fl)
qed

lemma sum_list_ge_length:
  "\<forall>x \<in> set xs. (1::int) \<le> f x \<Longrightarrow> int (length xs) \<le> sum_list (map f xs)"
  by (induction xs) auto

lemma reachable_avg_nonzero:
  assumes "reachable st" "0 < count_feedbacks st eid"
  shows "sql_avg (map f_rating (filter (\<lambda>f. f_event_id f = eid) (feedbacks st))) =
           Some (of_int (sum_list (map f_rating (filter (\<lambda>f. f_event_id f = eid) (feedbacks st))))
                 / of_nat (count_feedbacks st eid)) \<and>
         of_int (sum_list (map f_rating (filter (\<lambda>f. f_event_id f = eid) (feedbacks st))))
                 / (of_nat (count_feedbacks st eid) :: rat) \<noteq> 0"
proof -
  let ?fs = "filter (\<lambda>f. f_event_id f = eid) (feedbacks st)"
  have ne: "?fs \<noteq> []" using assms(2) by (auto simp: count_feedbacks_def)
  have "\<forall>f \<in> set ?fs. 1 \<le> f_rating f"
    using reachable_consistent[OF assms(1)] by (auto simp: consistent_def referential_def)
  from sum_list_ge_length[OF this] ne have pos: "0 < sum_list (map f_rating ?fs)"
    by (cases ?fs) auto
  have 1: "sql_avg (map f_rating ?fs) =
      Some (of_int (sum_list (map f_rating ?fs)) / of_nat (count_feedbacks st eid))"
    using ne by (simp add: sql_avg_def count_feedbacks_def)
  have 2: "of_int (sum_list (map f_rating ?fs)) / (of_nat (count_feedbacks st eid) :: rat) \<noteq> 0"
    using pos assms(2) by simp
  from 1 2 show ?thesis by simp
qed

lemma event_attendance_percentage:
  "event_attendance round2 st eid = Inr rep \<Longrightarrow>
   ar_attendance_percentage rep =
     round2 (if 0 < count_registrations st eid
             then of_nat (count_attendances st eid) / of_nat (count_registrations st eid) * 100
             else 0)"
  by (auto simp: event_attendance_def Let_def split: option.splits)

subsection \<open>event_attendance\<close>

text \<open>
  Claim C6, as amended. Whenever the rounding yields a number of at most two decimals
  within 0.005 of its argument: \<open>event_attendance\<close> answers with EventNotFound exactly
  when the event is absent. Otherwise it returns the event with its registration
  count r, attendance count a and feedback count; the attendance percentage has at
  most two decimals, is 0 when r = 0 and otherwise lies within 0.005 of a / r * 100;
  the average rating is null when the event has no feedback and, in a reachable
  store, otherwise a number of at most two decimals within 0.005 of the mean of the
  ratings.
\<close>

theorem event_attendance_report:
  assumes "rounds_to_two_decimals round2"
  shows
  "(event_attendance round2 st eid = Inl EventNotFound \<longleftrightarrow> get_event st eid = None) \<and>
   (\<forall>e. get_event st eid = Some e \<longrightarrow>
      (\<exists>rep. event_attendance round2 st eid = Inr rep \<and> ar_event rep = e \<and>
         ar_registration_count rep = count_registrations st eid \<and>
         ar_attendance_count rep = count_attendances st eid \<and>
         ar_feedback_count rep = count_feedbacks st eid \<and>
         two_decimal (ar_attendance_percentage rep) \<and>
         (count_registrations st eid = 0 \<longrightarrow> ar_attendance_percentage rep = 0) \<and>
         (0 < count_registrations st eid \<longrightarrow>
            \<bar>ar_attendance_percentage rep
               - of_nat (count_attendances st eid) / of_nat (count_registrations st eid) * 100\<bar>
              \<le> 1 / 200) \<and>
         (count_feedbacks st eid = 0 \<longrightarrow> ar_average_rating rep = None) \<and>
         (reachable st \<and> 0 < count_feedbacks st eid \<longrightarrow>
            (\<exists>v. ar_average_rating rep = Some v \<and> two_decimal v \<and>
               \<bar>v - of_int (sum_list (map f_rating
                        (filter (\<lambda>f. f_event_id f = eid) (feedbacks st))))
                    / of_nat (count_feedbacks st eid)\<bar> \<le> 1 / 200))))"
proof (intro conjI allI impI)
  show "event_attendance round2 st eid = Inl EventNotFound \<longleftrightarrow> get_event st eid = None"
    by (auto simp: event_attendance_def Let_def split: option.splits)
next
  fix e assume e: "get_event st eid = Some e"
  note r2 = assms[unfolded rounds_to_two_decimals_def, rule_format]
  define rep where "rep = (case event_attendance round2 st eid of Inr r \<Rightarrow> r)"
  have r: "event_attendance round2 st eid = Inr rep"
    using e by (simp add: rep_def event_attendance_def Let_def)
  have 1: "ar_event rep = e" "ar_registration_count rep = count_registrations st eid"
    "ar_attendance_count rep = count_attendances st eid"
    "ar_feedback_count rep = count_feedbacks st eid"
    using e by (simp_all add: rep_def event_attendance_def Let_def)
  note p = event_attendance_percentage[OF r]
  have 2: "two_decimal (ar_attendance_percentage rep)"
    unfolding p using r2 by simp
  have 3: "ar_attendance_percentage rep = 0" if "count_registrations st eid = 0"
    unfolding p using that by (simp add: round2_0[OF assms])
  have 4: "\<bar>ar_attendance_percentage rep
               - of_nat (count_attendances st eid) / of_nat (count_registrations st eid) * 100\<bar>
              \<le> 1 / 200" if "0 < count_registrations st eid"
    unfolding p using that r2 by simp
  have 5: "ar_average_rating rep = None" if "count_feedbacks st eid = 0"
    using e that by (simp add: rep_def event_attendance_def Let_def sql_avg_def count_feedbacks_def)
  have 6: "\<exists>v. ar_average_rating rep = Some v \<and> two_decimal v \<and>
               \<bar>v - of_int (sum_list (map f_rating
                        (filter (\<lambda>f. f_event_id f = eid) (feedbacks st))))
                    / of_nat (count_feedbacks st eid)\<bar> \<le> 1 / 200"
    if "reachable st \<and> 0 < count_feedbacks st eid"
  proof -
    from that reachable_avg_nonzero[of st eid] e
    have "ar_average_rating rep =
        Some (round2 (of_int (sum_list (map f_rating
                        (filter (\<lambda>f. f_event_id f = eid) (feedbacks st))))
                    / of_nat (count_feedbacks st eid)))"
      by (simp add: rep_def event_attendance_def Let_def)
    with r2 show ?thesis by simp
  qed
  show "\<exists>rep. event_attendance round2 st eid = Inr rep \<and> ar_event rep = e \<and>
         ar_registration_count rep = count_registrations st eid \<and>
         ar_attendance_count rep = count_attendances st eid \<and>
         ar_feedback_count rep = count_feedbacks st eid \<and>
         two_decimal (ar_attendance_percentage rep) \<and>
         (count_registrations st eid = 0 \<longrightarrow> ar_attendance_percentage rep = 0) \<and>
         (0 < count_registrations st eid \<longrightarrow>
            \<bar>ar_attendance_percentage rep
               - of_nat (count_attendances st eid) / of_nat (count_registrations st eid) * 100\<bar>
              \<le> 1 / 200) \<and>
         (count_feedbacks st eid = 0 \<longrightarrow> ar_average_rating rep = None) \<and>
         (reachable st \<and> 0 < count_feedbacks st eid \<longrightarrow>
            (\<exists>v. ar_average_rating rep = Some v \<and> two_decimal v \<and>
               \<bar>v - of_int (sum_list (map f_rating
                        (filter (\<lambda>f. f_event_id f = eid) (feedbacks st))))
                    / of_nat (count_feedbacks st eid)\<bar> \<le> 1 / 200))"
    by (intro exI[of _ rep] conjI impI) (rule r 1 2 | erule 3 4 5 6)+
qed

text \<open>
  The scenario of the specification: 2 registrations, 1 attendance and one feedback
  of rating 5 give the percentage 50 and the average 5; an unknown event is not
  found.
\<close>

theorem event_attendance_report_witness:
  "(\<exists>rep. event_attendance nearest_hundredth scenario_store ''e1'' = Inr rep \<and>
      ar_registration_count rep = 2 \<and> ar_attendance_count rep = 1 \<and>
      ar_attendance_percentage rep = 50 \<and> ar_average_rating rep = Some 5 \<and>
      ar_feedback_count rep = 1) \<and>
   event_attendance nearest_hundredth scenario_store ''e9'' = Inl EventNotFound"
proof -
  have st: "get_event scenario_store ''e1'' \<noteq> None" "get_event scenario_store ''e9'' = None"
    "count_registrations scenario_store ''e1'' = 2" "count_attendances scenario_store ''e1'' = 1"
    "count_feedbacks scenario_store ''e1'' = 1"
    "sum_list (map f_rating (filter (\<lambda>f. f_event_id f = ''e1'') (feedbacks scenario_store))) = 5"
    by (simp_all add: scenario_store_eq get_event_def count_registrations_def
        count_attendances_def count_feedbacks_def)
  have td: "two_decimal 50" "two_decimal 5" by (simp_all add: two_decimal_def)
  from st(1) obtain e where e: "get_event scenario_store ''e1'' = Some e" by blast
  from event_attendance_report[OF nearest_hundredth_rounds, of scenario_store "''e1''",
      THEN conjunct2, rule_format, OF e]
  obtain rep where rep: "event_attendance nearest_hundredth scenario_store ''e1'' = Inr rep"
    "ar_registration_count rep = 2" "ar_attendance_count rep = 1" "ar_feedback_count rep = 1"
    "two_decimal (ar_attendance_percentage rep)"
    "\<bar>ar_attendance_percentage rep - 50\<bar> \<le> 1 / 200"
    "\<exists>v. ar_average_rating rep = Some v \<and> two_decimal v \<and> \<bar>v - 5\<bar> \<le> 1 / 200"
    using reachable_scenario st by auto
  from rep(5) td(1) rep(6) have pct: "ar_attendance_percentage rep = 50"
    by (rule two_decimal_unique)
  from rep(7) obtain v where v: "ar_average_rating rep = Some v" "two_decimal v"
    "\<bar>v - 5\<bar> \<le> 1 / 200" by blast
  from v(2) td(2) v(3) have "v = 5" by (rule two_decimal_unique)
  with v(1) rep pct
  have "\<exists>rep. event_attendance nearest_hundredth scenario_store ''e1'' = Inr rep \<and>
      ar_registration_count rep = 2 \<and> ar_attendance_count rep = 1 \<and>
      ar_attendance_percentage rep = 50 \<and> ar_average_rating rep = Some 5 \<and>
      ar_feedback_count rep = 1"
    by simp
  moreover from event_attendance_report[OF nearest_hundredth_rounds, of scenario_store "''e9''",
      THEN conjunct1] st(2)
  have "event_attendance nearest_hundredth scenario_store ''e9'' = Inl EventNotFound" by simp
  ultimately show ?thesis by simp
qed

text \<open>
  C6 as stated fails where a / r * 100 has more than two decimals: with 3
  registrations and 1 attendance no rounding to two decimals returns 100 / 3.
\<close>

theorem attendance_percentage_rounded_counterexample:
  "reachable thirds_store \<and>
   count_registrations thirds_store ''e1'' = 3 \<and> count_attendances thirds_store ''e1'' = 1 \<and>
   \<not> (\<exists>round2 rep. rounds_to_two_decimals round2 \<and>
         event_attendance round2 thirds_store ''e1'' = Inr rep \<and>
         ar_attendance_percentage rep = 1 / 3 * 100)"
proof -
  have c: "count_registrations thirds_store ''e1'' = 3" "count_attendances thirds_store ''e1'' = 1"
    by (simp_all add: thirds_store_eq count_registrations_def count_attendances_def)
  have "\<not> (\<exists>round2 rep. rounds_to_two_decimals round2 \<and>
         event_attendance round2 thirds_store ''e1'' = Inr rep \<and>
         ar_attendance_percentage rep = 1 / 3 * 100)"
  proof
    assume "\<exists>round2 rep. rounds_to_two_decimals round2 \<and>
         event_attendance round2 thirds_store ''e1'' = Inr rep \<and>
         ar_attendance_percentage rep = 1 / 3 * 100"
    then obtain round2 rep where h: "rounds_to_two_decimals round2"
      "event_attendance round2 thirds_store ''e1'' = Inr rep"
      "ar_attendance_percentage rep = 1 / 3 * 100" by blast
    from event_attendance_percentage[OF h(2)] h(1)
    have "two_decimal (ar_attendance_percentage rep)"
      by (simp add: rounds_to_two_decimals_def)
    then have "two_decimal (1 / 3 * 100)" unfolding h(3) .
    with third_not_two_decimal show False by (rule notE)
  qed
  with c reachable_thirds show ?thesis by simp
qed

subsection \<open>student_participation\<close>

lemma those_map_Some:
  "\<forall>x \<in> set xs. f x \<noteq> None \<Longrightarrow> \<exists>ys. those (map f xs) = Some ys \<and> map Some ys = map f xs"
  by (induction xs) auto

lemma reachable_rows_have_events:
  assumes "reachable st"
  shows "\<forall>r \<in> set (registrations st). get_event st (r_event_id r) \<noteq> None"
    and "\<forall>a \<in> set (attendances st). get_event st (a_event_id a) \<noteq> None"
    and "\<forall>f \<in> set (feedbacks st). feedback_entry_of st f \<noteq> None"
proof -
  note c = reachable_consistent[OF assms]
  show 1: "\<forall>r \<in> set (registrations st). get_event st (r_event_id r) \<noteq> None"
    using c by (auto simp: consistent_def referential_def)
  show 2: "\<forall>a \<in> set (attendances st). get_event st (a_event_id a) \<noteq> None"
  proof
    fix a assume "a \<in> set (attendances st)"
    with c have "registration_of st (a_student_id a) (a_event_id a) \<noteq> None"
      by (auto simp: consistent_def referential_def)
    from reachable_registered_ids[OF assms this]
    show "get_event st (a_event_id a) \<noteq> None" by simp
  qed
  show "\<forall>f \<in> set (feedbacks st). feedback_entry_of st f \<noteq> None"
  proof
    fix f assume "f \<in> set (feedbacks st)"
    with c have "attendance_of st (f_student_id f) (f_event_id f) \<noteq> None"
      by (auto simp: consistent_def referential_def)
    from reachable_attended_registered[OF assms this]
    have "registration_of st (f_student_id f) (f_event_id f) \<noteq> None" by simp
    from reachable_registered_ids[OF assms this]
    have "get_event st (f_event_id f) \<noteq> None" by simp
    then show "feedback_entry_of st f \<noteq> None"
      by (auto simp: feedback_entry_of_def)
  qed
qed

lemma reachable_unregistered_student:
  assumes "reachable st" "filter (\<lambda>r. r_student_id r = sid) (registrations st) = []"
  shows "filter (\<lambda>a. a_student_id a = sid) (attendances st) = []"
    and "filter (\<lambda>f. f_student_id f = sid) (feedbacks st) = []"
proof -
  note c = reachable_consistent[OF assms(1)]
  have nr: "registration_of st sid eid = None" for eid
    using assms(2) by (auto simp: registration_of_def find_None_conv filter_empty_conv)
  show 1: "filter (\<lambda>a. a_student_id a = sid) (attendances st) = []"
  proof (rule ccontr)
    assume "filter (\<lambda>a. a_student_id a = sid) (attendances st) \<noteq> []"
    then obtain a where "a \<in> set (attendances st)" "a_student_id a = sid"
      by (auto simp: filter_empty_conv)
    with c have "registration_of st sid (a_event_id a) \<noteq> None"
      by (auto simp: consistent_def referential_def)
    with nr show False by simp
  qed
  show "filter (\<lambda>f. f_student_id f = sid) (feedbacks st) = []"
  proof (rule ccontr)
    assume "filter (\<lambda>f. f_student_id f = sid) (feedbacks st) \<noteq> []"
    then obtain f where "f \<in> set (feedbacks st)" "f_student_id f = sid"
      by (auto simp: filter_empty_conv)
    with c have "attendance_of st sid (f_event_id f) \<noteq> None"
      by (auto simp: consistent_def referential_def)
    then obtain a where "attendance_of st sid (f_event_id f) = Some a" by auto
    then have "a \<in> set (attendances st) \<and> a_student_id a = sid"
      unfolding attendance_of_def by (auto dest: find_Some_mem)
    with 1 show False by (auto simp: filter_empty_conv)
  qed
qed

lemma fetched_rows:
  assumes "mset ys = mset xs" "\<forall>x \<in> set xs. f x \<noteq> None"
  shows "\<exists>zs. those (map f ys) = Some zs \<and> mset (map Some zs) = mset (map f xs)
           \<and> length zs = length xs"
proof -
  from assms(1) have s: "set ys = set xs" by (rule mset_eq_setD)
  with assms(2) have "\<forall>x \<in> set ys. f x \<noteq> None" by simp
  from those_map_Some[OF this] obtain zs where
    zs: "those (map f ys) = Some zs" "map Some zs = map f ys" by blast
  from zs(2) have "mset (map Some zs) = mset (map f ys)" by simp
  also have "\<dots> = mset (map f xs)" using assms(1) by simp
  finally have m: "mset (map Some zs) = mset (map f xs)" .
  from zs(2) have "length zs = length ys" by (metis length_map)
  also have "\<dots> = length xs" using assms(1) by (rule mset_eq_length)
  finally show ?thesis using zs(1) m by blast
qed

lemma student_participation_rate:
  "student_participation fo round2 st sid = Inr rep \<Longrightarrow>
   pr_events_registered rep = length (pr_registered_events rep) \<and>
   pr_events_attended rep = length (pr_attended_events rep) \<and>
   pr_feedbacks_given rep = length (pr_feedbacks rep) \<and>
   pr_attendance_rate rep =
     (if pr_events_registered rep \<noteq> 0
      then round2 (of_nat (pr_events_attended rep) / of_nat (pr_events_registered rep) * 100)
      else 0)"
  by (auto simp: student_participation_def split: option.splits)

text \<open>
  Claim C7, as amended. Whenever the three queries return their rows in some order
  and the rounding yields a number of at most two decimals within 0.005 of its
  argument: \<open>student_participation\<close> answers with StudentNotFound exactly when the
  student is absent. In a reachable store it otherwise returns the student, the
  events of the student's registrations, the events of the student's attendances
  and one entry (event title, rating, comment, submission time) per feedback of the
  student, each list in the order of its query, with their lengths as counts. With
  no registration the attendance rate is 0 and the three lists are empty; otherwise
  the rate has at most two decimals and lies within 0.005 of
  attended / registered * 100.
\<close>

theorem student_participation_report:
  assumes "permutes fo" and "rounds_to_two_decimals round2"
  shows
  "(student_participation fo round2 st sid = Inl StudentNotFound \<longleftrightarrow> get_student st sid = None) \<and>
   (\<forall>s. reachable st \<and> get_student st sid = Some s \<longrightarrow>
      (\<exists>rep. student_participation fo round2 st sid = Inr rep \<and> pr_student rep = s \<and>
         mset (map Some (pr_registered_events rep)) =
           mset (map (\<lambda>r. get_event st (r_event_id r))
             (filter (\<lambda>r. r_student_id r = sid) (registrations st))) \<and>
         mset (map Some (pr_attended_events rep)) =
           mset (map (\<lambda>a. get_event st (a_event_id a))
             (filter (\<lambda>a. a_student_id a = sid) (attendances st))) \<and>
         mset (map Some (pr_feedbacks rep)) =
           mset (map (feedback_entry_of st)
             (filter (\<lambda>f. f_student_id f = sid) (feedbacks st))) \<and>
         pr_events_registered rep = length (pr_registered_events rep) \<and>
         pr_events_attended rep = length (pr_attended_events rep) \<and>
         pr_feedbacks_given rep = length (pr_feedbacks rep) \<and>
         two_decimal (pr_attendance_rate rep) \<and>
         (pr_events_registered rep = 0 \<longrightarrow>
            pr_attendance_rate rep = 0 \<and> pr_registered_events rep = [] \<and>
            pr_attended_events rep = [] \<and> pr_feedbacks rep = []) \<and>
         (0 < pr_events_registered rep \<longrightarrow>
            \<bar>pr_attendance_rate rep
               - of_nat (pr_events_attended rep) / of_nat (pr_events_registered rep) * 100\<bar>
              \<le> 1 / 200)))"
proof (intro conjI allI impI)
  show "student_participation fo round2 st sid = Inl StudentNotFound \<longleftrightarrow> get_student st sid = None"
    by (auto simp: student_participation_def split: option.splits)
next
  fix s assume h: "reachable st \<and> get_student st sid = Some s"
  then have re: "reachable st" and s: "get_student st sid = Some s" by simp_all
  note r2 = assms(2)[unfolded rounds_to_two_decimals_def, rule_format]
  let ?rs = "filter (\<lambda>r. r_student_id r = sid) (registrations st)"
  let ?as = "filter (\<lambda>a. a_student_id a = sid) (attendances st)"
  let ?fs = "filter (\<lambda>f. f_student_id f = sid) (feedbacks st)"
  from assms(1) have pm: "mset (all_registrations fo ?rs) = mset ?rs"
    "mset (all_attendances fo ?as) = mset ?as" "mset (all_feedbacks fo ?fs) = mset ?fs"
    by (simp_all add: permutes_def)
  from reachable_rows_have_events[OF re]
  have ev: "\<forall>r \<in> set ?rs. get_event st (r_event_id r) \<noteq> None"
    "\<forall>a \<in> set ?as. get_event st (a_event_id a) \<noteq> None"
    "\<forall>f \<in> set ?fs. feedback_entry_of st f \<noteq> None"
    by simp_all
  from fetched_rows[OF pm(1) ev(1)] fetched_rows[OF pm(2) ev(2)] fetched_rows[OF pm(3) ev(3)]
  obtain res aes fes where
    res: "those (map (\<lambda>r. get_event st (r_event_id r)) (all_registrations fo ?rs)) = Some res"
      "mset (map Some res) = mset (map (\<lambda>r. get_event st (r_event_id r)) ?rs)"
      "length res = length ?rs" and
    aes: "those (map (\<lambda>a. get_event st (a_event_id a)) (all_attendances fo ?as)) = Some aes"
      "mset (map Some aes) = mset (map (\<lambda>a. get_event st (a_event_id a)) ?as)"
      "length aes = length ?as" and
    fes: "those (map (feedback_entry_of st) (all_feedbacks fo ?fs)) = Some fes"
      "mset (map Some fes) = mset (map (feedback_entry_of st) ?fs)"
      "length fes = length ?fs"
    by blast
  define rep where "rep =
     \<lparr>pr_student = s, pr_events_registered = length res, pr_events_attended = length aes,
      pr_attendance_rate =
        (if res \<noteq> [] then round2 (of_nat (length aes) / of_nat (length res) * 100) else 0),
      pr_feedbacks_given = length fes, pr_registered_events = res,
      pr_attended_events = aes, pr_feedbacks = fes\<rparr>"
  have r: "student_participation fo round2 st sid = Inr rep"
    using s res(1) aes(1) fes(1) by (simp add: student_participation_def rep_def)
  have 1: "pr_student rep = s" by (simp add: rep_def)
  have 2: "mset (map Some (pr_registered_events rep)) =
      mset (map (\<lambda>r. get_event st (r_event_id r)) ?rs)"
    using res(2) by (simp add: rep_def)
  have 3: "mset (map Some (pr_attended_events rep)) =
      mset (map (\<lambda>a. get_event st (a_event_id a)) ?as)"
    using aes(2) by (simp add: rep_def)
  have 4: "mset (map Some (pr_feedbacks rep)) = mset (map (feedback_entry_of st) ?fs)"
    using fes(2) by (simp add: rep_def)
  have 5: "pr_events_registered rep = length (pr_registered_events rep)"
    "pr_events_attended rep = length (pr_attended_events rep)"
    "pr_feedbacks_given rep = length (pr_feedbacks rep)"
    by (simp_all add: rep_def)
  have td: "two_decimal (pr_attendance_rate rep)"
    using r2 by (simp add: rep_def two_decimal_0)
  have 6: "pr_attendance_rate rep = 0 \<and> pr_registered_events rep = [] \<and>
            pr_attended_events rep = [] \<and> pr_feedbacks rep = []"
    if "pr_events_registered rep = 0"
  proof -
    from that have e: "res = []" by (simp add: rep_def)
    with res(3) have "?rs = []" by simp
    from reachable_unregistered_student[OF re this] aes(3) fes(3)
    have "aes = []" "fes = []" by simp_all
    with e show ?thesis by (simp add: rep_def)
  qed
  have 7: "\<bar>pr_attendance_rate rep
               - of_nat (pr_events_attended rep) / of_nat (pr_events_registered rep) * 100\<bar>
              \<le> 1 / 200" if "0 < pr_events_registered rep"
    using that r2 by (auto simp add: rep_def)
  show "\<exists>rep. student_participation fo round2 st sid = Inr rep \<and> pr_student rep = s \<and>
         mset (map Some (pr_registered_events rep)) =
           mset (map (\<lambda>r. get_event st (r_event_id r))
             (filter (\<lambda>r. r_student_id r = sid) (registrations st))) \<and>
         mset (map Some (pr_attended_events rep)) =
           mset (map (\<lambda>a. get_event st (a_event_id a))
             (filter (\<lambda>a. a_student_id a = sid) (attendances st))) \<and>
         mset (map Some (pr_feedbacks rep)) =
           mset (map (feedback_entry_of st)
             (filter (\<lambda>f. f_student_id f = sid) (feedbacks st))) \<and>
         pr_events_registered rep = length (pr_registered_events rep) \<and>
         pr_events_attended rep = length (pr_attended_events rep) \<and>
         pr_feedbacks_given rep = length (pr_feedbacks rep) \<and>
         two_decimal (pr_attendance_rate rep) \<and>
         (pr_events_registered rep = 0 \<longrightarrow>
            pr_attendance_rate rep = 0 \<and> pr_registered_events rep = [] \<and>
            pr_attended_events rep = [] \<and> pr_feedbacks rep = []) \<and>
         (0 < pr_events_registered rep \<longrightarrow>
            \<bar>pr_attendance_rate rep
               - of_nat (pr_events_attended rep) / of_nat (pr_events_registered rep) * 100\<bar>
              \<le> 1 / 200)"
    apply (intro exI[of _ rep] conjI)
              apply (rule r 1 2 3 4 5 td)+
     apply (rule impI, erule 6)
    apply (rule impI, erule 7)
    done
qed

lemma table_order_permutes: "permutes table_order"
  by (simp add: permutes_def table_order_def)

text \<open>
  At the scenario store: student C, never registered, has rate 0 and empty lists;
  student A has one registration, one attendance and one feedback entry; an unknown
  student is not found.
\<close>

theorem student_participation_report_witness:
  "(\<exists>rep. student_participation table_order nearest_hundredth scenario_store ''sC'' = Inr rep \<and>
      pr_attendance_rate rep = 0 \<and> pr_registered_events rep = [] \<and>
      pr_attended_events rep = [] \<and> pr_feedbacks rep = []) \<and>
   (\<exists>rep. student_participation table_order nearest_hundredth scenario_store ''sA'' = Inr rep \<and>
      pr_events_registered rep = 1 \<and> pr_events_attended rep = 1 \<and>
      pr_attendance_rate rep = 100 \<and>
      pr_feedbacks rep = [\<lparr>fe_event_title = ''Talk'', fe_rating = 5, fe_comment = [],
                           fe_submitted_at = 0\<rparr>]) \<and>
   student_participation table_order nearest_hundredth scenario_store ''sZ'' = Inl StudentNotFound"
proof -
  note sp = student_participation_report[OF table_order_permutes nearest_hundredth_rounds]
  have st: "get_student scenario_store ''sC'' \<noteq> None" "get_student scenario_store ''sZ'' = None"
    "filter (\<lambda>r. r_student_id r = ''sC'') (registrations scenario_store) = []"
    by (simp_all add: scenario_store_eq get_student_def)
  from st(1) obtain s where s: "get_student scenario_store ''sC'' = Some s" by blast
  from sp[of scenario_store "''sC''", THEN conjunct2, rule_format,
      OF conjI[OF reachable_scenario s]] st(3)
  have a: "\<exists>rep. student_participation table_order nearest_hundredth scenario_store ''sC'' = Inr rep \<and>
      pr_attendance_rate rep = 0 \<and> pr_registered_events rep = [] \<and>
      pr_attended_events rep = [] \<and> pr_feedbacks rep = []"
    by auto
  have "nearest_hundredth 100 = 100"
    by (rule round2_fixes_two_decimal[OF nearest_hundredth_rounds]) (simp add: two_decimal_def)
  then have b: "\<exists>rep. student_participation table_order nearest_hundredth scenario_store ''sA'' = Inr rep \<and>
      pr_events_registered rep = 1 \<and> pr_events_attended rep = 1 \<and>
      pr_attendance_rate rep = 100 \<and>
      pr_feedbacks rep = [\<lparr>fe_event_title = ''Talk'', fe_rating = 5, fe_comment = [],
                           fe_submitted_at = 0\<rparr>]"
    by (simp add: scenario_store_eq student_participation_def get_student_def get_event_def
        feedback_entry_of_def table_order_def)
  from sp[of scenario_store "''sZ''", THEN conjunct1] st(2)
  have c: "student_participation table_order nearest_hundredth scenario_store ''sZ'' = Inl StudentNotFound"
    by simp
  from a b c show ?thesis by simp
qed

text \<open>
  C7 as stated fails where attended / registered * 100 has more than two decimals:
  for the student with 3 registrations and 1 attendance no rounding to two decimals
  returns 100 / 3.
\<close>

theorem attendance_rate_rounded_counterexample:
  "reachable thirds_store \<and>
   length (filter (\<lambda>r. r_student_id r = ''s1'') (registrations thirds_store)) = 3 \<and>
   length (filter (\<lambda>a. a_student_id a = ''s1'') (attendances thirds_store)) = 1 \<and>
   \<not> (\<exists>fo round2 rep. permutes fo \<and> rounds_to_two_decimals round2 \<and>
         student_participation fo round2 thirds_store ''s1'' = Inr rep \<and>
         pr_attendance_rate rep = 1 / 3 * 100)"
proof -
  have c: "length (filter (\<lambda>r. r_student_id r = ''s1'') (registrations thirds_store)) = 3"
    "length (filter (\<lambda>a. a_student_id a = ''s1'') (attendances thirds_store)) = 1"
    by (simp_all add: thirds_store_eq)
  have "\<not> (\<exists>fo round2 rep. permutes fo \<and> rounds_to_two_decimals round2 \<and>
         student_participation fo round2 thirds_store ''s1'' = Inr rep \<and>
         pr_attendance_rate rep = 1 / 3 * 100)"
  proof
    assume "\<exists>fo round2 rep. permutes fo \<and> rounds_to_two_decimals round2 \<and>
         student_participation fo round2 thirds_store ''s1'' = Inr rep \<and>
         pr_attendance_rate rep = 1 / 3 * 100"
    then obtain fo round2 rep where h: "rounds_to_two_decimals round2"
      "student_participation fo round2 thirds_store ''s1'' = Inr rep"
      "pr_attendance_rate rep = 1 / 3 * 100" by blast
    from student_participation_rate[OF h(2)] h(1)
    have "two_decimal (pr_attendance_rate rep)"
      by (simp add: rounds_to_two_decimals_def two_decimal_0)
    then have "two_decimal (1 / 3 * 100)" unfolding h(3) .
    with third_not_two_decimal show False by (rule notE)
  qed
  with c reachable_thirds show ?thesis by simp
qed

end
